theory Spec2Isabelle
  imports Main "HOL-Library.AList"
begin

section \<open>Python exceptions\<close>

text \<open>
  The exception classes that the relay's code can meet. \<open>BinasciiError\<close>,
  \<open>UnicodeEncodeError\<close> and \<open>UnicodeDecodeError\<close> are subclasses of \<open>ValueError\<close>;
  \<open>RecursionError\<close> is a subclass of \<open>RuntimeError\<close>. \<open>HttpError\<close> is the class of the
  mail service's client library, \<open>HeaderParseError\<close> that of \<open>email.errors\<close>, and
  \<open>OtherException\<close> stands for any other class. The \<open>isinstance\<close> functions are what an
  \<open>except\<close> clause tests.
\<close>

datatype py_exc =
    AttributeError
  | KeyError
  | TypeError
  | IndexError
  | ValueError
  | BinasciiError
  | UnicodeEncodeError
  | UnicodeDecodeError
  | RuntimeError
  | RecursionError
  | HttpError
  | HeaderParseError
  | OtherException

fun isinstance_RuntimeError :: "py_exc \<Rightarrow> bool" where
  "isinstance_RuntimeError RuntimeError = True"
| "isinstance_RuntimeError RecursionError = True"
| "isinstance_RuntimeError _ = False"

fun isinstance_HttpError :: "py_exc \<Rightarrow> bool" where
  "isinstance_HttpError HttpError = True"
| "isinstance_HttpError _ = False"

fun isinstance_ValueError :: "py_exc \<Rightarrow> bool" where
  "isinstance_ValueError ValueError = True"
| "isinstance_ValueError BinasciiError = True"
| "isinstance_ValueError UnicodeEncodeError = True"
| "isinstance_ValueError UnicodeDecodeError = True"
| "isinstance_ValueError _ = False"

section \<open>The mail service's JSON objects\<close>

text \<open>
  A JSON object is read with \<open>d.get(k)\<close> (absent key: \<open>None\<close>) or \<open>d[k]\<close>
  (absent key: \<open>KeyError\<close>), so every field is an option.
\<close>

type_synonym bytes = "char list"

record body =
  data :: "string option"
  attachmentId :: "string option"

record header =
  name :: "string option"
  header_value :: "string option"

datatype part = Part
  (mimeType: "string option")
  (filename: "string option")
  (part_body: "body option")
  (parts: "part list option")
  (headers: "header list option")

record message =
  ident :: "string option"
  threadId :: "string option"
  payload :: "part option"

record attachment =
  att_data :: "string option"

section \<open>The MIME objects that reconstruction builds\<close>

text \<open>
  \<open>MIMEText content subtype\<close> is \<open>MIMEText(_text=content, _subtype=subtype)\<close>.
  A \<open>MIMEBase\<close> object is built in two ways: with a payload of bytes and a
  Content-Disposition header carrying the file name, or with the parts attached to it.
\<close>

datatype mime =
    MIMEText string string
  | MIMEBase_attachment string string bytes string
  | MIMEBase_container string string "mime list"

record outbound =
  msg_from :: string
  msg_to :: string
  msg_cc :: string
  in_reply_to :: "string option"
  references :: "string option"
  msg_subject :: "string option"
  attached :: "mime list"

record reply_message =
  raw :: string
  reply_threadId :: "string option"

record forwarding_rule =
  rule_to :: string
  rule_cc :: "string list"

section \<open>Library functions and the remote service\<close>

text \<open>
  The standard library's codecs are parameters of the model.
  \<open>urlsafe_b64decode\<close> is \<open>base64.urlsafe_b64decode\<close>, with \<open>None\<close> for
  \<open>binascii.Error\<close>; \<open>decode_utf8\<close> is \<open>bytes.decode("utf-8")\<close>, with \<open>None\<close> for
  \<open>UnicodeDecodeError\<close>; \<open>serialize\<close> is \<open>message.as_string().encode()\<close>;
  \<open>urlsafe_b64encode\<close> is \<open>base64.urlsafe_b64encode(...).decode()\<close>.
\<close>

record lib =
  urlsafe_b64decode :: "bytes \<Rightarrow> bytes option"
  decode_utf8 :: "bytes \<Rightarrow> string option"
  serialize :: "outbound \<Rightarrow> py_exc + bytes"
  urlsafe_b64encode :: "bytes \<Rightarrow> string"

text \<open>
  An account's client is the remote mail service as that account sees it: each request
  takes the state \<open>'w\<close> of the world and gives back a response or a raised exception,
  and the next state of the world.
  \<open>messages_list\<close> is the listing of the messages labelled UNREAD: the ids of the
  entries of the response's \<open>messages\<close>, if the response has that key.
  \<open>batch_get\<close> is the execution of a batch of full-format \<open>get\<close> requests: for each
  callback, the exception (\<open>Inl\<close>) or the message (\<open>Inr\<close>) it was called with.
\<close>

record 'w client =
  messages_list :: "'w \<Rightarrow> (py_exc + string option list option) \<times> 'w"
  batch_get :: "string option list \<Rightarrow> 'w \<Rightarrow> (py_exc + (py_exc + message) list) \<times> 'w"
  attachments_get :: "string option \<Rightarrow> string option \<Rightarrow> 'w \<Rightarrow> (py_exc + attachment) \<times> 'w"
  messages_send :: "reply_message \<Rightarrow> 'w \<Rightarrow> (py_exc + unit) \<times> 'w"
  batch_modify :: "string option list \<Rightarrow> 'w \<Rightarrow> (py_exc + unit) \<times> 'w"

text \<open>
  The state of a run: the world, and the requests executed so far, each with whether it
  returned (\<open>True\<close>) or raised (\<open>False\<close>).
\<close>

datatype call =
    ListCall
  | BatchGetCall "string option list"
  | AttachmentGetCall "string option" "string option"
  | SendCall reply_message
  | BatchModifyCall "string option list"

record 'w state =
  world :: 'w
  calls :: "(call \<times> bool) list"

definition execute :: "call \<Rightarrow> ('w \<Rightarrow> (py_exc + 'a) \<times> 'w) \<Rightarrow> 'w state \<Rightarrow> (py_exc + 'a) \<times> 'w state" where
  "execute c request s =
     (case request (world s) of
        (r, w) \<Rightarrow> (r, \<lparr>world = w, calls = calls s @ [(c, \<not> isl r)]\<rparr>))"

section \<open>Strings\<close>

text \<open>\<open>py_split sep s\<close> is \<open>s.split(sep)\<close> for a separator of one character.\<close>

fun py_split :: "char \<Rightarrow> string \<Rightarrow> string list" where
  "py_split sep [] = [[]]"
| "py_split sep (x # xs) =
     (if x = sep then [] # py_split sep xs
      else (case py_split sep xs of
              [] \<Rightarrow> [[x]]
            | piece # pieces \<Rightarrow> (x # piece) # pieces))"

text \<open>\<open>s.encode("ASCII")\<close> raises \<open>UnicodeEncodeError\<close> unless every character is below 128.\<close>

definition is_ascii :: "string \<Rightarrow> bool" where
  "is_ascii s = list_all (\<lambda>c. (of_char c :: nat) < 128) s"

text \<open>The truth value of \<open>d.get(k)\<close> for a string field: absent and empty are false.\<close>

fun truthy :: "string option \<Rightarrow> bool" where
  "truthy None = False"
| "truthy (Some s) = (s \<noteq> [])"

section \<open>Reconstruction of a message body: \<open>parse_email_body\<close>\<close>

text \<open>The text branch (lines 56 and 57).\<close>

definition text_part :: "lib \<Rightarrow> body option \<Rightarrow> string \<Rightarrow> py_exc + mime" where
  "text_part l bd mime_subtype =
     (case bd of
        None \<Rightarrow> Inl KeyError
      | Some b \<Rightarrow>
          (case data b of
             None \<Rightarrow> Inl KeyError
           | Some d \<Rightarrow>
               if \<not> is_ascii d then Inl UnicodeEncodeError
               else (case urlsafe_b64decode l d of
                       None \<Rightarrow> Inl BinasciiError
                     | Some decoded \<Rightarrow>
                         (case decode_utf8 l decoded of
                            None \<Rightarrow> Inl UnicodeDecodeError
                          | Some content \<Rightarrow> Inr (MIMEText content mime_subtype)))))"

text \<open>The attachment branch (lines 60 to 76): the data is inline or fetched.\<close>

definition attachment_bytes :: "lib \<Rightarrow> string \<Rightarrow> string \<Rightarrow> string \<Rightarrow> string \<Rightarrow> py_exc + mime" where
  "attachment_bytes l mime_type mime_subtype fname d =
     (case urlsafe_b64decode l d of
        None \<Rightarrow> Inl BinasciiError
      | Some attachment_data \<Rightarrow>
          Inr (MIMEBase_attachment mime_type mime_subtype attachment_data fname))"

definition attachment_part ::
  "lib \<Rightarrow> 'w client \<Rightarrow> string \<Rightarrow> string \<Rightarrow> string \<Rightarrow> body option \<Rightarrow> string option \<Rightarrow>
   'w state \<Rightarrow> (py_exc + mime) \<times> 'w state" where
  "attachment_part l c mime_type mime_subtype fname bd msg_id s =
     (case bd of
        None \<Rightarrow> (Inl KeyError, s)
      | Some b \<Rightarrow>
          (case data b of
             Some d \<Rightarrow> (attachment_bytes l mime_type mime_subtype fname d, s)
           | None \<Rightarrow>
               (case attachmentId b of
                  None \<Rightarrow> (Inl KeyError, s)
                | Some attachment_id \<Rightarrow>
                    (case execute (AttachmentGetCall msg_id (Some attachment_id))
                            (attachments_get c msg_id (Some attachment_id)) s of
                       (Inl e, s') \<Rightarrow> (Inl e, s')
                     | (Inr att, s') \<Rightarrow>
                         (case att_data att of
                            None \<Rightarrow> (Inl KeyError, s')
                          | Some d \<Rightarrow>
                              (attachment_bytes l mime_type mime_subtype fname d, s'))))))"

text \<open>
  Line 53: \<open>mime_type, mime_subtype = message.get("mimeType").split("/")\<close>. An
  absent \<open>mimeType\<close> gives \<open>None\<close>, which has no \<open>split\<close>; unpacking into two names
  needs exactly two pieces.
\<close>

definition split_mimeType :: "string option \<Rightarrow> py_exc + string \<times> string" where
  "split_mimeType mt =
     (case mt of
        None \<Rightarrow> Inl AttributeError
      | Some t \<Rightarrow>
          (case py_split CHR ''/'' t of
             [mime_type, mime_subtype] \<Rightarrow> Inr (mime_type, mime_subtype)
           | _ \<Rightarrow> Inl ValueError))"

text \<open>
  \<open>parse_email_body\<close> (lines 46 to 83). \<open>attach_subparts\<close> is the loop of lines 80
  and 81 over \<open>message.get("parts")\<close>, which raises \<open>TypeError\<close> when the part has no
  \<open>parts\<close>; its accumulator is the list of the parts attached so far.
\<close>

fun parse_email_body ::
  "lib \<Rightarrow> 'w client \<Rightarrow> part \<Rightarrow> string option \<Rightarrow> 'w state \<Rightarrow> (py_exc + mime) \<times> 'w state"
and attach_subparts ::
  "lib \<Rightarrow> 'w client \<Rightarrow> part list \<Rightarrow> string option \<Rightarrow> mime list \<Rightarrow> 'w state \<Rightarrow>
   (py_exc + mime list) \<times> 'w state"
where
  "parse_email_body l c (Part mt fn bd ps hs) msg_id s =
     (case split_mimeType mt of
        Inl e \<Rightarrow> (Inl e, s)
      | Inr (mime_type, mime_subtype) \<Rightarrow>
          if mime_type = ''text'' then (text_part l bd mime_subtype, s)
          else if truthy fn then attachment_part l c mime_type mime_subtype (the fn) bd msg_id s
          else (case ps of
                  None \<Rightarrow> (Inl TypeError, s)
                | Some subparts \<Rightarrow>
                    (case attach_subparts l c subparts msg_id [] s of
                       (Inl e, s') \<Rightarrow> (Inl e, s')
                     | (Inr children, s') \<Rightarrow>
                         (Inr (MIMEBase_container mime_type mime_subtype children), s'))))"
| "attach_subparts l c [] msg_id acc s = (Inr acc, s)"
| "attach_subparts l c (subpart # rest) msg_id acc s =
     (case parse_email_body l c subpart msg_id s of
        (Inl e, s') \<Rightarrow> (Inl e, s')
      | (Inr p, s') \<Rightarrow> attach_subparts l c rest msg_id (acc @ [p]) s')"

text \<open>The three kinds of reconstructed part, and every part of a tree of parts.\<close>

datatype kind = Text | Attachment | Container

fun kind_of :: "mime \<Rightarrow> kind" where
  "kind_of (MIMEText content subtype) = Text"
| "kind_of (MIMEBase_attachment maintype subtype payload_bytes fname) = Attachment"
| "kind_of (MIMEBase_container maintype subtype children) = Container"

fun subtree :: "part \<Rightarrow> part list" where
  "subtree (Part mt fn bd ps hs) =
     Part mt fn bd ps hs # (case ps of None \<Rightarrow> [] | Some subparts \<Rightarrow> concat (map subtree subparts))"

section \<open>One cycle of one account: \<open>apply_forwarding_rule\<close>\<close>

text \<open>\<open>py_join sep xs\<close> is \<open>sep.join(xs)\<close>.\<close>

fun py_join :: "string \<Rightarrow> string list \<Rightarrow> string" where
  "py_join sep [] = []"
| "py_join sep [x] = x"
| "py_join sep (x # y # ys) = x @ sep @ py_join sep (y # ys)"

text \<open>The loop of lines 116 to 118: the value of the last header named Subject.\<close>

fun get_subject :: "header list \<Rightarrow> string option \<Rightarrow> string option" where
  "get_subject [] subject = subject"
| "get_subject (h # hs) subject =
     get_subject hs (if name h = Some ''Subject'' then header_value h else subject)"

text \<open>Lines 122 to 129: the message that is sent.\<close>

definition build_message :: "string \<Rightarrow> forwarding_rule \<Rightarrow> message \<Rightarrow> string option \<Rightarrow> mime \<Rightarrow> outbound" where
  "build_message account email_list unread_email subj p =
     \<lparr>msg_from = account,
      msg_to = rule_to email_list,
      msg_cc = py_join '','' (rule_cc email_list),
      in_reply_to = ident unread_email,
      references = ident unread_email,
      msg_subject = subj,
      attached = [p]\<rparr>"

text \<open>
  The body of the \<open>try\<close> of lines 113 to 138, for one fetched message. It returns the id
  that line 136 appends to \<open>processed_ids\<close>, or the exception raised on the way.
  \<open>email_list\<close> is \<open>email_lists.get(account)\<close>, read at line 124.
\<close>

definition forward_email ::
  "lib \<Rightarrow> 'w client \<Rightarrow> string \<Rightarrow> forwarding_rule option \<Rightarrow> message \<Rightarrow> 'w state \<Rightarrow>
   (py_exc + string option) \<times> 'w state" where
  "forward_email l c account email_list unread_email s =
     (case payload unread_email of
        None \<Rightarrow> (Inl AttributeError, s)
      | Some pl \<Rightarrow>
          (case headers pl of
             None \<Rightarrow> (Inl TypeError, s)
           | Some hs \<Rightarrow>
               (case parse_email_body l c pl (ident unread_email) s of
                  (Inl e, s1) \<Rightarrow> (Inl e, s1)
                | (Inr p, s1) \<Rightarrow>
                    (case email_list of
                       None \<Rightarrow> (Inl AttributeError, s1)
                     | Some rule \<Rightarrow>
                         (case serialize l
                                 (build_message account rule unread_email
                                    (get_subject hs (Some [])) p) of
                            Inl e \<Rightarrow> (Inl e, s1)
                          | Inr serialized \<Rightarrow>
                              (case execute
                                      (SendCall \<lparr>raw = urlsafe_b64encode l serialized,
                                                 reply_threadId = threadId unread_email\<rparr>)
                                      (messages_send c
                                         \<lparr>raw = urlsafe_b64encode l serialized,
                                          reply_threadId = threadId unread_email\<rparr>) s1 of
                                 (Inl e, s2) \<Rightarrow> (Inl e, s2)
                               | (Inr u, s2) \<Rightarrow> (Inr (ident unread_email), s2)))))))"

text \<open>
  The loop of lines 108 to 141 over the results of the batch. A result with an exception
  is skipped; \<open>except RuntimeError: continue\<close> is the only handler inside the loop, so
  every other exception leaves the loop.
\<close>

fun process_unread_emails ::
  "lib \<Rightarrow> 'w client \<Rightarrow> string \<Rightarrow> forwarding_rule option \<Rightarrow> (py_exc + message) list \<Rightarrow>
   string option list \<Rightarrow> 'w state \<Rightarrow> (py_exc + string option list) \<times> 'w state" where
  "process_unread_emails l c account email_list [] processed_ids s = (Inr processed_ids, s)"
| "process_unread_emails l c account email_list (Inl exception # rest) processed_ids s =
     process_unread_emails l c account email_list rest processed_ids s"
| "process_unread_emails l c account email_list (Inr unread_email # rest) processed_ids s =
     (case forward_email l c account email_list unread_email s of
        (Inl e, s') \<Rightarrow>
          if isinstance_RuntimeError e
          then process_unread_emails l c account email_list rest processed_ids s'
          else (Inl e, s')
      | (Inr i, s') \<Rightarrow>
          process_unread_emails l c account email_list rest (processed_ids @ [i]) s')"

text \<open>The body of the \<open>try\<close> of lines 94 to 148: it returns, or an exception leaves it.\<close>

definition cycle_body ::
  "lib \<Rightarrow> 'w client \<Rightarrow> string \<Rightarrow> forwarding_rule option \<Rightarrow> 'w state \<Rightarrow>
   (py_exc + unit) \<times> 'w state" where
  "cycle_body l c account email_list s =
     (case execute ListCall (messages_list c) s of
        (Inl e, s1) \<Rightarrow> (Inl e, s1)
      | (Inr result, s1) \<Rightarrow>
          (let unread_email_ids = (case result of None \<Rightarrow> [] | Some ms \<Rightarrow> ms) in
           case execute (BatchGetCall unread_email_ids) (batch_get c unread_email_ids) s1 of
             (Inl e, s2) \<Rightarrow> (Inl e, s2)
           | (Inr unread_emails, s2) \<Rightarrow>
               (case process_unread_emails l c account email_list unread_emails [] s2 of
                  (Inl e, s3) \<Rightarrow> (Inl e, s3)
                | (Inr processed_ids, s3) \<Rightarrow>
                    execute (BatchModifyCall processed_ids) (batch_modify c processed_ids) s3)))"

text \<open>
  \<open>apply_forwarding_rule\<close> (lines 86 to 151): \<open>except HttpError\<close> of lines 150 and 151
  prints the error and the function returns; any other exception leaves the function.
\<close>

definition apply_forwarding_rule ::
  "lib \<Rightarrow> 'w client \<Rightarrow> string \<Rightarrow> forwarding_rule option \<Rightarrow> 'w state \<Rightarrow>
   (py_exc + unit) \<times> 'w state" where
  "apply_forwarding_rule l c account email_list s =
     (case cycle_body l c account email_list s of
        (Inl e, s') \<Rightarrow> if isinstance_HttpError e then (Inr (), s') else (Inl e, s')
      | (Inr u, s') \<Rightarrow> (Inr (), s'))"

text \<open>
  The kinds of request, and \<open>replied l account email_list i new\<close>: among the requests
  \<open>new\<close> there is a send that returned, of the message built for a fetched message whose
  id is \<open>i\<close>.
\<close>

fun is_attachment_get :: "call \<Rightarrow> bool" where
  "is_attachment_get (AttachmentGetCall msg_id attachment_id) = True"
| "is_attachment_get _ = False"

fun is_batch_modify :: "call \<Rightarrow> bool" where
  "is_batch_modify (BatchModifyCall ids) = True"
| "is_batch_modify _ = False"

definition replied ::
  "lib \<Rightarrow> string \<Rightarrow> forwarding_rule option \<Rightarrow> string option \<Rightarrow> (call \<times> bool) list \<Rightarrow> bool" where
  "replied l account email_list i new =
     (\<exists>rule m subj p serialized.
        email_list = Some rule \<and> ident m = i \<and>
        serialize l (build_message account rule m subj p) = Inr serialized \<and>
        (SendCall \<lparr>raw = urlsafe_b64encode l serialized, reply_threadId = threadId m\<rparr>, True)
          \<in> set new)"

section \<open>The scheduler: the loop of \<open>main\<close>\<close>

text \<open>
  Lines 181 and 182: one cycle for every client, in the order of the list. An exception
  that \<open>apply_forwarding_rule\<close> lets through ends the program.
\<close>

fun run_clients ::
  "lib \<Rightarrow> (string \<times> forwarding_rule) list \<Rightarrow> (string \<times> 'w client) list \<Rightarrow> 'w state \<Rightarrow>
   (py_exc + unit) \<times> 'w state" where
  "run_clients l email_lists [] s = (Inr (), s)"
| "run_clients l email_lists ((account, client) # rest) s =
     (case apply_forwarding_rule l client account (map_of email_lists account) s of
        (Inl e, s') \<Rightarrow> (Inl e, s')
      | (Inr u, s') \<Rightarrow> run_clients l email_lists rest s')"

text \<open>
  \<open>now\<close> is \<open>datetime.now(TIMEZONE)\<close> and \<open>sleep\<close> is \<open>time.sleep\<close>, both on the world.
\<close>

record dtime =
  hour :: nat
  minute :: nat

record 'w clock =
  now :: "'w \<Rightarrow> dtime \<times> 'w"
  sleep :: "nat \<Rightarrow> 'w \<Rightarrow> 'w"

text \<open>
  The scheduler is running, with the time it sampled last, or it has stopped (the loop
  was left), or the program has ended with an exception.
\<close>

datatype 'w sched =
    Running dtime "'w state"
  | Stopped "'w state"
  | Crashed py_exc "'w state"

text \<open>The body of the loop, lines 179 to 184.\<close>

definition tick ::
  "'w clock \<Rightarrow> lib \<Rightarrow> (string \<times> forwarding_rule) list \<Rightarrow> (string \<times> 'w client) list \<Rightarrow>
   'w state \<Rightarrow> 'w sched" where
  "tick clk l email_lists clients s =
     (case now clk (world s) of
        (dtime', w) \<Rightarrow>
          (case run_clients l email_lists clients (s\<lparr>world := w\<rparr>) of
             (Inl e, s') \<Rightarrow> Crashed e s'
           | (Inr u, s') \<Rightarrow> Running dtime' (s'\<lparr>world := sleep clk 5 (world s')\<rparr>)))"

text \<open>One evaluation of the loop's condition (line 178), and the body if it holds.\<close>

fun main_step ::
  "'w clock \<Rightarrow> lib \<Rightarrow> (string \<times> forwarding_rule) list \<Rightarrow> (string \<times> 'w client) list \<Rightarrow>
   'w sched \<Rightarrow> 'w sched option" where
  "main_step clk l email_lists clients (Running dtime s) =
     (if \<not> (hour dtime = 23 \<and> minute dtime \<ge> 55)
      then Some (tick clk l email_lists clients s)
      else Some (Stopped s))"
| "main_step clk l email_lists clients (Stopped s) = None"
| "main_step clk l email_lists clients (Crashed e s) = None"

text \<open>
  The loop, run for at most \<open>fuel\<close> evaluations of its condition: the number of times
  the body ran and the scheduler at the end, or \<open>None\<close> if the loop is still running.
\<close>

fun main_loop ::
  "nat \<Rightarrow> 'w clock \<Rightarrow> lib \<Rightarrow> (string \<times> forwarding_rule) list \<Rightarrow> (string \<times> 'w client) list \<Rightarrow>
   'w sched \<Rightarrow> (nat \<times> 'w sched) option" where
  "main_loop fuel clk l email_lists clients (Stopped s) = Some (0, Stopped s)"
| "main_loop fuel clk l email_lists clients (Crashed e s) = Some (0, Crashed e s)"
| "main_loop 0 clk l email_lists clients (Running dtime s) = None"
| "main_loop (Suc fuel) clk l email_lists clients (Running dtime s) =
     (case main_step clk l email_lists clients (Running dtime s) of
        None \<Rightarrow> None
      | Some (Stopped s') \<Rightarrow> Some (0, Stopped s')
      | Some next \<Rightarrow>
          map_option (\<lambda>(ticks, final). (Suc ticks, final))
            (main_loop fuel clk l email_lists clients next))"

section \<open>The rule loader: \<open>email_list_parser\<close>\<close>

text \<open>
  \<open>parseaddr\<close> is \<open>email.utils.parseaddr\<close>, a parameter: the display name and the
  address part it finds.
\<close>

definition validate_email :: "(string \<Rightarrow> string \<times> string) \<Rightarrow> string \<Rightarrow> bool" where
  "validate_email parseaddr email =
     (let addr = parseaddr email in \<not> (fst addr = [] \<and> snd addr = []))"

text \<open>
  \<open>str.strip()\<close> removes the white space of Unicode at both ends. On the UTF-8 encoding
  that white space is the ASCII characters 9 to 13 and 28 to 32, the two-byte sequences
  of U+0085 and U+00A0, and the three-byte sequences of U+1680, U+2000 to U+200A, U+2028,
  U+2029, U+202F, U+205F and U+3000. \<open>rstrip_rev\<close> works on the reversed string.
\<close>

definition ascii_space :: "char \<Rightarrow> bool" where
  "ascii_space a =
     (let n = (of_char a :: nat) in (9 \<le> n \<and> n \<le> 13) \<or> (28 \<le> n \<and> n \<le> 32))"

definition two_byte_space :: "char \<Rightarrow> char \<Rightarrow> bool" where
  "two_byte_space a b =
     ((of_char a :: nat) = 194 \<and> ((of_char b :: nat) = 133 \<or> (of_char b :: nat) = 160))"

definition three_byte_space :: "char \<Rightarrow> char \<Rightarrow> char \<Rightarrow> bool" where
  "three_byte_space a b c =
     (let x = (of_char a :: nat); y = (of_char b :: nat); z = (of_char c :: nat) in
      (x = 225 \<and> y = 154 \<and> z = 128) \<or>
      (x = 226 \<and> y = 128 \<and> ((128 \<le> z \<and> z \<le> 138) \<or> z = 168 \<or> z = 169 \<or> z = 175)) \<or>
      (x = 226 \<and> y = 129 \<and> z = 159) \<or>
      (x = 227 \<and> y = 128 \<and> z = 128))"

fun lstrip :: "string \<Rightarrow> string" where
  "lstrip [] = []"
| "lstrip (a # rest) =
     (if ascii_space a then lstrip rest
      else (case rest of
              [] \<Rightarrow> a # rest
            | b # rest2 \<Rightarrow>
                if two_byte_space a b then lstrip rest2
                else (case rest2 of
                        [] \<Rightarrow> a # rest
                      | c # rest3 \<Rightarrow>
                          if three_byte_space a b c then lstrip rest3 else a # rest)))"

fun rstrip_rev :: "string \<Rightarrow> string" where
  "rstrip_rev [] = []"
| "rstrip_rev (a # rest) =
     (if ascii_space a then rstrip_rev rest
      else (case rest of
              [] \<Rightarrow> a # rest
            | b # rest2 \<Rightarrow>
                if two_byte_space b a then rstrip_rev rest2
                else (case rest2 of
                        [] \<Rightarrow> a # rest
                      | c # rest3 \<Rightarrow>
                          if three_byte_space c b a then rstrip_rev rest3 else a # rest)))"

definition strip :: "string \<Rightarrow> string" where
  "strip x = rev (rstrip_rev (rev (lstrip x)))"

text \<open>\<open>xs[i]\<close> raises \<open>IndexError\<close> beyond the end of the list.\<close>

definition py_index :: "'a list \<Rightarrow> nat \<Rightarrow> py_exc + 'a" where
  "py_index xs i = (if i < length xs then Inr (xs ! i) else Inl IndexError)"

text \<open>
  The condition of line 24, \<open>lines[0] == "ACCOUNT" and lines[2] == "TO" and lines[4] ==
  "CC"\<close>: \<open>and\<close> evaluates its right operand only if the left one is true.
\<close>

definition section_headers :: "string list \<Rightarrow> py_exc + bool" where
  "section_headers lines =
     (case py_index lines 0 of
        Inl e \<Rightarrow> Inl e
      | Inr l0 \<Rightarrow>
          if l0 \<noteq> ''ACCOUNT'' then Inr False
          else (case py_index lines 2 of
                  Inl e \<Rightarrow> Inl e
                | Inr l2 \<Rightarrow>
                    if l2 \<noteq> ''TO'' then Inr False
                    else (case py_index lines 4 of
                            Inl e \<Rightarrow> Inl e
                          | Inr l4 \<Rightarrow> Inr (l4 = ''CC''))))"

text \<open>The two messages that the loader logs, with the file or the address they name.\<close>

datatype log_entry =
    Email_list_invalid string
  | Invalid_email string

text \<open>
  The loop of lines 30 to 33 over the addresses of one file: its \<open>continue\<close> goes on
  with the next address.
\<close>

fun validate_emails :: "(string \<Rightarrow> string \<times> string) \<Rightarrow> string list \<Rightarrow> log_entry list \<Rightarrow> log_entry list" where
  "validate_emails parseaddr [] logged = logged"
| "validate_emails parseaddr (email # rest) logged =
     (if \<not> validate_email parseaddr email
      then validate_emails parseaddr rest (logged @ [Invalid_email email])
      else validate_emails parseaddr rest logged)"

text \<open>
  The loop of lines 19 to 33 over the files of the directory, each given by its name and
  the result of \<open>readlines()\<close>. \<open>email_lists\<close> is the dictionary, in the order of
  insertion, and line 28 is \<open>AList.update\<close>.
\<close>

fun parse_files ::
  "(string \<Rightarrow> string \<times> string) \<Rightarrow> (string \<times> string list) list \<Rightarrow>
   (string \<times> forwarding_rule) list \<Rightarrow> log_entry list \<Rightarrow>
   py_exc + (string \<times> forwarding_rule) list \<times> log_entry list" where
  "parse_files parseaddr [] email_lists logged = Inr (email_lists, logged)"
| "parse_files parseaddr ((file, readlines) # files) email_lists logged =
     (let lines = map strip readlines in
      case section_headers lines of
        Inl e \<Rightarrow> Inl e
      | Inr False \<Rightarrow>
          parse_files parseaddr files email_lists (logged @ [Email_list_invalid file])
      | Inr True \<Rightarrow>
          parse_files parseaddr files
            (AList.update (lines ! 1) \<lparr>rule_to = lines ! 3, rule_cc = drop 5 lines\<rparr> email_lists)
            (validate_emails parseaddr ([lines ! 1, lines ! 3] @ drop 5 lines) logged))"

definition parse ::
  "(string \<Rightarrow> string \<times> string) \<Rightarrow> (string \<times> string list) list \<Rightarrow>
   py_exc + (string \<times> forwarding_rule) list \<times> log_entry list" where
  "parse parseaddr files = parse_files parseaddr files [] []"

section \<open>A reference model of the codecs\<close>

text \<open>
  A Python \<open>str\<close> is represented by the bytes of its UTF-8 encoding, so that
  \<open>encode('UTF-8')\<close> is the identity and \<open>decode("utf-8")\<close> checks that the bytes are
  well-formed UTF-8. \<open>a2b_base64\<close> is the decoder of \<open>binascii\<close> outside strict mode:
  characters outside the alphabet are skipped, a pad character ends the data once the
  current group of four is complete with it, and an incomplete group at the end of the
  data is an error. \<open>urlsafe_b64decode\<close> reads \<open>-\<close> as \<open>+\<close> and \<open>_\<close> as \<open>/\<close>.
\<close>

definition b64_value :: "char \<Rightarrow> nat option" where
  "b64_value ch =
     (let n = (of_char ch :: nat) in
      if 65 \<le> n \<and> n \<le> 90 then Some (n - 65)
      else if 97 \<le> n \<and> n \<le> 122 then Some (n - 71)
      else if 48 \<le> n \<and> n \<le> 57 then Some (n + 4)
      else if ch = CHR ''+'' \<or> ch = CHR ''-'' then Some 62
      else if ch = CHR ''/'' \<or> ch = CHR ''_'' then Some 63
      else None)"

fun a2b_base64 :: "nat \<Rightarrow> nat \<Rightarrow> nat \<Rightarrow> string \<Rightarrow> bytes \<Rightarrow> bytes option" where
  "a2b_base64 quad_pos leftchar pads [] bin = (if quad_pos \<noteq> 0 then None else Some bin)"
| "a2b_base64 quad_pos leftchar pads (ch # rest) bin =
     (if ch = CHR ''='' then
        (if 2 \<le> quad_pos \<and> 4 \<le> quad_pos + (pads + 1) then Some bin
         else a2b_base64 quad_pos leftchar (if 2 \<le> quad_pos then pads + 1 else pads) rest bin)
      else
        (case b64_value ch of
           None \<Rightarrow> a2b_base64 quad_pos leftchar pads rest bin
         | Some v \<Rightarrow>
             if quad_pos = 0 then a2b_base64 1 v 0 rest bin
             else if quad_pos = 1 then
               a2b_base64 2 (v mod 16) 0 rest (bin @ [char_of (leftchar * 4 + v div 16)])
             else if quad_pos = 2 then
               a2b_base64 3 (v mod 4) 0 rest (bin @ [char_of (leftchar * 16 + v div 4)])
             else a2b_base64 0 0 0 rest (bin @ [char_of (leftchar * 64 + v)])))"

definition py_urlsafe_b64decode :: "bytes \<Rightarrow> bytes option" where
  "py_urlsafe_b64decode s = a2b_base64 0 0 0 s []"

fun utf8_valid :: "nat list \<Rightarrow> bool" where
  "utf8_valid [] = True"
| "utf8_valid (b0 # bs) =
     (if b0 < 128 then utf8_valid bs
      else if 194 \<le> b0 \<and> b0 \<le> 223 then
        (case bs of
           b1 # r \<Rightarrow> 128 \<le> b1 \<and> b1 \<le> 191 \<and> utf8_valid r
         | _ \<Rightarrow> False)
      else if 224 \<le> b0 \<and> b0 \<le> 239 then
        (case bs of
           b1 # b2 # r \<Rightarrow>
             (if b0 = 224 then 160 else 128) \<le> b1 \<and> b1 \<le> (if b0 = 237 then 159 else 191) \<and>
             128 \<le> b2 \<and> b2 \<le> 191 \<and> utf8_valid r
         | _ \<Rightarrow> False)
      else if 240 \<le> b0 \<and> b0 \<le> 244 then
        (case bs of
           b1 # b2 # b3 # r \<Rightarrow>
             (if b0 = 240 then 144 else 128) \<le> b1 \<and> b1 \<le> (if b0 = 244 then 143 else 191) \<and>
             128 \<le> b2 \<and> b2 \<le> 191 \<and> 128 \<le> b3 \<and> b3 \<le> 191 \<and> utf8_valid r
         | _ \<Rightarrow> False)
      else False)"

definition py_decode_utf8 :: "bytes \<Rightarrow> string option" where
  "py_decode_utf8 bs = (if utf8_valid (map of_char bs) then Some bs else None)"

definition b64_char :: "nat \<Rightarrow> char" where
  "b64_char v =
     (if v < 26 then char_of (v + 65)
      else if v < 52 then char_of (v + 71)
      else if v < 62 then char_of (v - 4)
      else if v = 62 then CHR ''-''
      else CHR ''_'')"

fun b2a_base64 :: "nat list \<Rightarrow> string" where
  "b2a_base64 (x # y # z # rest) =
     b64_char (x div 4) # b64_char ((x mod 4) * 16 + y div 16) #
     b64_char ((y mod 16) * 4 + z div 64) # b64_char (z mod 64) # b2a_base64 rest"
| "b2a_base64 [x, y] =
     [b64_char (x div 4), b64_char ((x mod 4) * 16 + y div 16), b64_char ((y mod 16) * 4),
      CHR ''='']"
| "b2a_base64 [x] = [b64_char (x div 4), b64_char ((x mod 4) * 16), CHR ''='', CHR ''='']"
| "b2a_base64 [] = []"

definition py_urlsafe_b64encode :: "bytes \<Rightarrow> string" where
  "py_urlsafe_b64encode s = b2a_base64 (map of_char s)"

text \<open>
  The serialisation of a message is the library's, and its multipart boundaries are
  random; \<open>render\<close> stands for it in the examples: the header lines in the order in which
  lines 123 to 128 set them, then the attached parts.
\<close>

fun render_mime :: "mime \<Rightarrow> string" where
  "render_mime (MIMEText content subtype) =
     ''Content-Type: text/'' @ subtype @ [CHR 0x0A, CHR 0x0A] @ content @ [CHR 0x0A]"
| "render_mime (MIMEBase_attachment maintype subtype payload_bytes fname) =
     ''Content-Type: '' @ maintype @ ''/'' @ subtype @ [CHR 0x0A] @
     ''Content-Disposition: attachment; filename='' @ fname @ [CHR 0x0A, CHR 0x0A] @
     payload_bytes @ [CHR 0x0A]"
| "render_mime (MIMEBase_container maintype subtype children) =
     ''Content-Type: '' @ maintype @ ''/'' @ subtype @ [CHR 0x0A, CHR 0x0A] @
     concat (map render_mime children)"

definition render_header :: "string \<Rightarrow> string option \<Rightarrow> string" where
  "render_header k v = k @ '': '' @ (case v of None \<Rightarrow> [] | Some x \<Rightarrow> x) @ [CHR 0x0A]"

text \<open>
  Serialisation raises \<open>HeaderParseError\<close> when the value of a header has an embedded
  header: a line break, then one or more characters other than space and tab, then a
  colon (the check of \<open>email.header\<close>). The other checks of the library's serialisation are
  not modelled.
\<close>

fun embedded_header :: "string \<Rightarrow> bool" where
  "embedded_header [] = False"
| "embedded_header (x # xs) =
     ((x = CHR 0x0A \<and>
       CHR '':'' \<in> set (tl (takeWhile (\<lambda>ch. ch \<noteq> CHR '' '' \<and> ch \<noteq> CHR 0x09) xs))) \<or>
      embedded_header xs)"

definition header_values :: "outbound \<Rightarrow> string list" where
  "header_values m =
     [msg_from m, msg_to m, msg_cc m] @
     concat (map (\<lambda>v. case v of None \<Rightarrow> [] | Some x \<Rightarrow> [x])
               [in_reply_to m, references m, msg_subject m])"

definition render :: "outbound \<Rightarrow> py_exc + bytes" where
  "render m =
     (if list_ex embedded_header (header_values m) then Inl HeaderParseError
      else
        Inr (render_header ''from'' (Some (msg_from m)) @ render_header ''to'' (Some (msg_to m)) @
             render_header ''cc'' (Some (msg_cc m)) @ render_header ''In-Reply-To'' (in_reply_to m) @
             render_header ''References'' (references m) @
             render_header ''subject'' (msg_subject m) @
             [CHR 0x0A] @ concat (map render_mime (attached m))))"

definition py_lib :: lib where
  "py_lib = \<lparr>urlsafe_b64decode = py_urlsafe_b64decode, decode_utf8 = py_decode_utf8,
             serialize = render, urlsafe_b64encode = py_urlsafe_b64encode\<rparr>"

section \<open>A mailbox as the remote service\<close>

text \<open>
  A mailbox holds messages, the ids labelled UNREAD, the stored attachment data, the
  messages sent, and the time of the day in seconds. \<open>mailbox_client\<close> answers every request from it; a listing with no result
  has no \<open>messages\<close> key. \<open>unreachable_client\<close> raises \<open>HttpError\<close> at every request.
\<close>

record mailbox =
  stored :: "message list"
  unread :: "string option list"
  attachment_store :: "((string option \<times> string option) \<times> string) list"
  outbox :: "reply_message list"
  seconds :: nat

definition mailbox_client :: "mailbox client" where
  "mailbox_client =
     \<lparr>messages_list = (\<lambda>w. (Inr (if unread w = [] then None else Some (unread w)), w)),
      batch_get = (\<lambda>ids w.
        (Inr (map (\<lambda>i. case find (\<lambda>m. ident m = i) (stored w) of
                          None \<Rightarrow> Inl HttpError
                        | Some m \<Rightarrow> Inr m) ids), w)),
      attachments_get = (\<lambda>msg_id attachment_id w.
        (case map_of (attachment_store w) (msg_id, attachment_id) of
           None \<Rightarrow> Inl HttpError
         | Some d \<Rightarrow> Inr \<lparr>att_data = Some d\<rparr>, w)),
      messages_send = (\<lambda>r w. (Inr (), w\<lparr>outbox := outbox w @ [r]\<rparr>)),
      batch_modify = (\<lambda>ids w. (Inr (), w\<lparr>unread := filter (\<lambda>i. i \<notin> set ids) (unread w)\<rparr>))\<rparr>"

definition unreachable_client :: "mailbox client" where
  "unreachable_client =
     \<lparr>messages_list = (\<lambda>w. (Inl HttpError, w)),
      batch_get = (\<lambda>ids w. (Inl HttpError, w)),
      attachments_get = (\<lambda>msg_id attachment_id w. (Inl HttpError, w)),
      messages_send = (\<lambda>r w. (Inl HttpError, w)),
      batch_modify = (\<lambda>ids w. (Inl HttpError, w))\<rparr>"

definition mailbox_clock :: "mailbox clock" where
  "mailbox_clock =
     \<lparr>now = (\<lambda>w. (\<lparr>hour = (seconds w div 3600) mod 24, minute = (seconds w div 60) mod 60\<rparr>, w)),
      sleep = (\<lambda>n w. w\<lparr>seconds := seconds w + n\<rparr>)\<rparr>"

definition empty_mailbox :: mailbox where
  "empty_mailbox = \<lparr>stored = [], unread = [], attachment_store = [], outbox = [], seconds = 0\<rparr>"

text \<open>
  \<open>parseaddr\<close> on a bare address, as in the rule files: no display name, and the address
  with its white space removed.
\<close>

definition parseaddr_bare :: "string \<Rightarrow> string \<times> string" where
  "parseaddr_bare email = ([], strip email)"

definition start :: "'w \<Rightarrow> 'w state" where
  "start w = \<lparr>world = w, calls = []\<rparr>"

text \<open>Parts and a message for the examples.\<close>

definition note_part :: part where
  "note_part = Part (Some ''text/plain'') (Some ''notes.txt'')
     (Some \<lparr>data = Some ''aGVsbG8='', attachmentId = None\<rparr>) None None"

definition report_part :: part where
  "report_part = Part (Some ''application/pdf'') (Some ''report.pdf'')
     (Some \<lparr>data = Some ''UERGIQ=='', attachmentId = None\<rparr>) None None"

definition mixed_part :: part where
  "mixed_part = Part (Some ''multipart/mixed'') None None (Some [note_part, report_part])
     (Some [\<lparr>name = Some ''Subject'', header_value = Some ''Minutes''\<rparr>])"

definition hollow_part :: part where
  "hollow_part = Part (Some ''multipart/mixed'') None None (Some []) None"

definition broken_part :: part where
  "broken_part = Part (Some ''text/plain'') None
     (Some \<lparr>data = Some ''a'', attachmentId = None\<rparr>) None (Some [])"

definition broken_message :: message where
  "broken_message =
     \<lparr>ident = Some ''m1'', threadId = Some ''t1'', payload = Some broken_part\<rparr>"

definition minutes_message :: message where
  "minutes_message = \<lparr>ident = Some ''m2'', threadId = Some ''t2'', payload = Some mixed_part\<rparr>"

definition office_rule :: forwarding_rule where
  "office_rule = \<lparr>rule_to = ''team@x.org'', rule_cc = [''ann@x.org'', ''bob@x.org'']\<rparr>"

definition office_mailbox :: mailbox where
  "office_mailbox =
     empty_mailbox\<lparr>stored := [broken_message, minutes_message], unread := [Some ''m1'', Some ''m2'']\<rparr>"

definition tidy_mailbox :: mailbox where
  "tidy_mailbox = empty_mailbox\<lparr>stored := [minutes_message], unread := [Some ''m2'']\<rparr>"

text \<open>The reconstruction of \<open>mixed_part\<close>, and the reply that is sent for \<open>minutes_message\<close>.\<close>

definition minutes_mime :: mime where
  "minutes_mime = MIMEBase_container ''multipart'' ''mixed''
     [MIMEText ''hello'' ''plain'',
      MIMEBase_attachment ''application'' ''pdf'' ''PDF!'' ''report.pdf'']"

definition minutes_reply :: "string \<Rightarrow> forwarding_rule \<Rightarrow> reply_message" where
  "minutes_reply account rule =
     \<lparr>raw = urlsafe_b64encode py_lib
              (projr (serialize py_lib
                 (build_message account rule minutes_message (Some ''Minutes'') minutes_mime))),
      reply_threadId = Some ''t2''\<rparr>"

text \<open>
  A client whose requests fail in the transport, with an exception that is not an
  \<open>HttpError\<close> (a name that does not resolve, a socket that times out).
\<close>

definition stalled_client :: "mailbox client" where
  "stalled_client =
     \<lparr>messages_list = (\<lambda>w. (Inl OtherException, w)),
      batch_get = (\<lambda>ids w. (Inl OtherException, w)),
      attachments_get = (\<lambda>msg_id attachment_id w. (Inl OtherException, w)),
      messages_send = (\<lambda>r w. (Inl OtherException, w)),
      batch_modify = (\<lambda>ids w. (Inl OtherException, w))\<rparr>"

text \<open>
  A text part with a file name whose data is not inline, a named part that also has
  parts, and a message whose Subject has an embedded header.
\<close>

definition stored_note_part :: part where
  "stored_note_part = Part (Some ''text/plain'') (Some ''notes.txt'')
     (Some \<lparr>data = None, attachmentId = Some ''att1''\<rparr>) None None"

definition named_container_part :: part where
  "named_container_part = Part (Some ''application/pdf'') (Some ''report.pdf'')
     (Some \<lparr>data = Some ''UERGIQ=='', attachmentId = None\<rparr>) (Some [note_part]) None"

definition injected_part :: part where
  "injected_part = Part (Some ''text/plain'') None
     (Some \<lparr>data = Some ''aGVsbG8='', attachmentId = None\<rparr>) None
     (Some [\<lparr>name = Some ''Subject'', header_value = Some ''Hi\<newline>Bcc: eve@x.org''\<rparr>])"

definition injected_message :: message where
  "injected_message =
     \<lparr>ident = Some ''m3'', threadId = Some ''t3'', payload = Some injected_part\<rparr>"

section \<open>The declared content type\<close>

text \<open>A part declares a type when its \<open>mimeType\<close> is present and has exactly one \<open>/\<close>.\<close>

definition declares_type :: "part \<Rightarrow> bool" where
  "declares_type p =
     (case mimeType p of None \<Rightarrow> False | Some t \<Rightarrow> count_list t CHR ''/'' = 1)"

lemma length_py_split: "length (py_split sep t) = Suc (count_list t sep)"
  by (induction t) (auto split: list.splits)

lemma split_mimeType_absent: "split_mimeType None = Inl AttributeError"
  by (simp add: split_mimeType_def)

lemma split_mimeType_count:
  assumes "count_list t CHR ''/'' \<noteq> 1"
  shows "split_mimeType (Some t) = Inl ValueError"
proof -
  have "length (py_split CHR ''/'' t) \<noteq> 2"
    using assms by (simp add: length_py_split)
  then show ?thesis
    by (auto simp: split_mimeType_def split: list.splits)
qed

lemma split_mimeType_ok:
  assumes "count_list t CHR ''/'' = 1"
  shows "\<exists>a b. split_mimeType (Some t) = Inr (a, b)"
proof -
  have "length (py_split CHR ''/'' t) = 2"
    using assms by (simp add: length_py_split)
  then obtain a b where "py_split CHR ''/'' t = [a, b]"
    by (auto simp: length_Suc_conv numeral_2_eq_2)
  then show ?thesis by (simp add: split_mimeType_def)
qed

lemma declares_type_split:
  assumes "declares_type p"
  shows "\<exists>a b. split_mimeType (mimeType p) = Inr (a, b)"
proof (cases "mimeType p")
  case None
  with assms show ?thesis by (simp add: declares_type_def)
next
  case (Some t)
  with assms have "count_list t CHR ''/'' = 1" by (simp add: declares_type_def)
  then show ?thesis using Some by (simp add: split_mimeType_ok)
qed

lemma parse_email_body_split_error:
  assumes "split_mimeType (mimeType m) = Inl e"
  shows "parse_email_body l c m msg_id s = (Inl e, s)"
  using assms by (cases m) simp

section \<open>The requests that reconstruction executes\<close>

lemma execute_calls:
  "execute k request s = (r, s') \<Longrightarrow> calls s' = calls s @ [(k, \<not> isl r)]"
  by (auto simp: execute_def split: prod.splits)

lemma text_part_errors:
  "text_part l bd st = Inl e \<Longrightarrow>
     e \<in> {KeyError, UnicodeEncodeError, BinasciiError, UnicodeDecodeError}"
  by (auto simp: text_part_def split: option.splits if_splits)

lemma text_part_kind: "text_part l bd st = Inr r \<Longrightarrow> kind_of r = Text"
  by (auto simp: text_part_def split: option.splits if_splits)

lemma attachment_bytes_errors: "attachment_bytes l mt st fn d = Inl e \<Longrightarrow> e = BinasciiError"
  by (auto simp: attachment_bytes_def split: option.splits)

lemma attachment_part_kind:
  "attachment_part l c mt st fn bd i s = (Inr r, s') \<Longrightarrow> kind_of r = Attachment"
  by (auto simp: attachment_part_def attachment_bytes_def
      split: option.splits if_splits prod.splits sum.splits)

lemma attachment_part_errors:
  "attachment_part l c mt st fn bd i s = (Inl e, s') \<Longrightarrow>
     e \<in> {KeyError, BinasciiError} \<or>
     (\<exists>a. calls s' = calls s @ [(AttachmentGetCall i a, False)])"
  by (auto simp: attachment_part_def execute_def
      split: option.splits if_splits prod.splits sum.splits dest!: attachment_bytes_errors)

lemma attachment_part_extends:
  "attachment_part l c mt st fn bd i s = (r, s') \<Longrightarrow> \<exists>new. calls s' = calls s @ new"
  by (auto simp: attachment_part_def execute_def
      split: option.splits if_splits prod.splits sum.splits)

lemma calls_extend:
  fixes l :: lib and c :: "'w client"
  shows "parse_email_body l c m msg_id s = (r, s') \<Longrightarrow> \<exists>new. calls s' = calls s @ new"
    and "attach_subparts l c ms msg_id acc s = (rs, s') \<Longrightarrow> \<exists>new. calls s' = calls s @ new"
proof (induction l c m msg_id s and l c ms msg_id acc s arbitrary: r s' and rs s'
        rule: parse_email_body_attach_subparts.induct)
  case (1 l c mt fn bd ps hs msg_id s)
  show ?case
  proof (cases "split_mimeType mt")
    case (Inl e)
    with "1.prems" show ?thesis by simp
  next
    case (Inr ab)
    obtain a b where ab: "ab = (a, b)" by (cases ab)
    show ?thesis
    proof (cases "a = ''text''")
      case True
      with Inr ab "1.prems" show ?thesis by auto
    next
      case False
      note nt = this
      show ?thesis
      proof (cases "truthy fn")
        case True
        with Inr ab nt "1.prems" show ?thesis by (auto dest: attachment_part_extends)
      next
        case False
        show ?thesis
        proof (cases ps)
          case None
          with Inr ab nt False "1.prems" show ?thesis by auto
        next
          case (Some subparts)
          obtain rs s1 where sub: "attach_subparts l c subparts msg_id [] s = (rs, s1)"
            by (cases "attach_subparts l c subparts msg_id [] s")
          with Inr ab nt False Some "1.prems" have "s' = s1"
            by (auto split: sum.splits)
          with "1.IH"[OF Inr[unfolded ab] refl nt False Some sub] show ?thesis by simp
        qed
      qed
    qed
  qed
next
  case (2 l c msg_id acc s)
  then show ?case by simp
next
  case (3 l c subpart rest msg_id acc s)
  obtain r1 s1 where first: "parse_email_body l c subpart msg_id s = (r1, s1)"
    by (cases "parse_email_body l c subpart msg_id s")
  from "3.IH"(1)[OF first] obtain new1 where n1: "calls s1 = calls s @ new1" by blast
  show ?case
  proof (cases r1)
    case (Inl e)
    with first "3.prems" have "s' = s1" by simp
    with n1 show ?thesis by simp
  next
    case (Inr p)
    with first "3.prems" have "attach_subparts l c rest msg_id (acc @ [p]) s1 = (rs, s')"
      by simp
    from "3.IH"(2)[OF first[symmetric] Inr this] obtain new2 where "calls s' = calls s1 @ new2"
      by blast
    with n1 show ?thesis by simp
  qed
qed

text \<open>
  In a tree whose parts all declare a type, an \<open>AttributeError\<close> or a \<open>ValueError\<close> of
  reconstruction is not raised by line 53: the last request is an attachment fetch, and
  it raised.
\<close>

lemma split_errors_from_fetch:
  fixes l :: lib and c :: "'w client"
  shows "list_all declares_type (subtree m) \<Longrightarrow>
         parse_email_body l c m msg_id s = (Inl e, s') \<Longrightarrow>
         e \<in> {AttributeError, ValueError} \<Longrightarrow>
         \<exists>before a. calls s' = calls s @ before @ [(AttachmentGetCall msg_id a, False)]"
    and "list_all (\<lambda>p. list_all declares_type (subtree p)) ms \<Longrightarrow>
         attach_subparts l c ms msg_id acc s = (Inl e, s') \<Longrightarrow>
         e \<in> {AttributeError, ValueError} \<Longrightarrow>
         \<exists>before a. calls s' = calls s @ before @ [(AttachmentGetCall msg_id a, False)]"
proof (induction l c m msg_id s and l c ms msg_id acc s arbitrary: e s' and e s'
        rule: parse_email_body_attach_subparts.induct)
  case (1 l c mt fn bd ps hs msg_id s)
  from "1.prems"(1) have dt: "declares_type (Part mt fn bd ps hs)" by simp
  then obtain a b where ab: "split_mimeType mt = Inr (a, b)"
    using declares_type_split by fastforce
  show ?case
  proof (cases "a = ''text''")
    case True
    with ab "1.prems" show ?thesis by (auto dest: text_part_errors)
  next
    case False
    note nt = this
    show ?thesis
    proof (cases "truthy fn")
      case True
      with ab nt "1.prems"(2) have "attachment_part l c a b (the fn) bd msg_id s = (Inl e, s')"
        by simp
      from attachment_part_errors[OF this] "1.prems"(3)
      obtain x where "calls s' = calls s @ [] @ [(AttachmentGetCall msg_id x, False)]" by auto
      then show ?thesis by blast
    next
      case False
      show ?thesis
      proof (cases ps)
        case None
        with ab nt False "1.prems" show ?thesis by auto
      next
        case (Some subparts)
        from "1.prems"(1) Some
        have all: "list_all (\<lambda>p. list_all declares_type (subtree p)) subparts"
          by (auto simp: list_all_iff)
        from ab nt False Some "1.prems"(2)
        have "attach_subparts l c subparts msg_id [] s = (Inl e, s')"
          by (auto split: prod.splits sum.splits)
        from "1.IH"[OF ab refl nt False Some all this "1.prems"(3)] show ?thesis .
      qed
    qed
  qed
next
  case (2 l c msg_id acc s)
  then show ?case by simp
next
  case (3 l c subpart rest msg_id acc s)
  show ?case
  proof (cases "parse_email_body l c subpart msg_id s")
    case (Pair r s1)
    show ?thesis
    proof (cases r)
      case (Inl e1)
      with Pair "3.prems" have "parse_email_body l c subpart msg_id s = (Inl e, s')" by simp
      with "3.IH"(1) "3.prems" show ?thesis by simp
    next
      case (Inr p)
      with Pair "3.prems" have "attach_subparts l c rest msg_id (acc @ [p]) s1 = (Inl e, s')"
        by simp
      with "3.IH"(2)[OF Pair[symmetric] Inr] "3.prems"
      obtain before a
        where b: "calls s' = calls s1 @ before @ [(AttachmentGetCall msg_id a, False)]"
        by auto
      from calls_extend(1)[OF Pair] obtain new where "calls s1 = calls s @ new" by blast
      with b have "calls s' = calls s @ (new @ before) @ [(AttachmentGetCall msg_id a, False)]"
        by simp
      then show ?thesis by blast
    qed
  qed
qed

section \<open>The size of a part\<close>

lemma child_size:
  "child \<in> set subparts \<Longrightarrow> size child < size (Part mt fn bd (Some subparts) hs)"
  by (auto simp: less_Suc_eq_le dest!: size_list_estimation'[where f=size and y="size child"])

lemma subtree_size: "p \<in> set (subtree m) \<Longrightarrow> p = m \<or> size p < size m"
proof (induction m rule: subtree.induct)
  case (1 mt fn bd ps hs)
  show ?case
  proof (cases ps)
    case None
    with "1.prems" show ?thesis by simp
  next
    case (Some subparts)
    show ?thesis
    proof (cases "p = Part mt fn bd ps hs")
      case True
      then show ?thesis by simp
    next
      case False
      with "1.prems" Some obtain child
        where ch: "child \<in> set subparts" "p \<in> set (subtree child)"
        by auto
      from "1.IH"[OF Some ch] have "size p \<le> size child" by auto
      also have "size child < size (Part mt fn bd ps hs)"
        using ch(1) Some by (simp only: child_size)
      finally show ?thesis by simp
    qed
  qed
qed

lemma below_size: "p \<in> set (tl (subtree m)) \<Longrightarrow> size p < size m"
proof (cases m)
  case (Part mt fn bd ps hs)
  assume a: "p \<in> set (tl (subtree m))"
  show ?thesis
  proof (cases ps)
    case None
    with a Part show ?thesis by simp
  next
    case (Some subparts)
    with a Part obtain child where ch: "child \<in> set subparts" "p \<in> set (subtree child)"
      by auto
    from subtree_size[OF ch(2)] have "size p \<le> size child" by auto
    also have "size child < size m"
      using ch(1) Some Part by (simp only: child_size)
    finally show ?thesis .
  qed
qed

section \<open>Properties of reconstruction\<close>

text \<open>
  C10. Reconstruction is partial in the declared content type. A part whose \<open>mimeType\<close>
  is absent raises \<open>AttributeError\<close>, and a part whose \<open>mimeType\<close> does not have exactly
  one \<open>/\<close> raises \<open>ValueError\<close>, both before any branch is taken: no request has been
  executed and the state is the one at the call. If every part of the tree declares a
  type, line 53 succeeds at every part of the tree, and an \<open>AttributeError\<close> or
  \<open>ValueError\<close> of the reconstruction can only be one that an attachment fetch raised.
\<close>

theorem mimeType_split_partial:
  "(mimeType m = None \<longrightarrow> parse_email_body l c m msg_id s = (Inl AttributeError, s)) \<and>
   (\<forall>t. mimeType m = Some t \<and> count_list t CHR ''/'' \<noteq> 1 \<longrightarrow>
        parse_email_body l c m msg_id s = (Inl ValueError, s)) \<and>
   (list_all declares_type (subtree m) \<longrightarrow>
      (\<forall>p \<in> set (subtree m). \<exists>a b. split_mimeType (mimeType p) = Inr (a, b)) \<and>
      (\<forall>e s'. parse_email_body l c m msg_id s = (Inl e, s') \<and> e \<in> {AttributeError, ValueError} \<longrightarrow>
         (\<exists>before a. calls s' = calls s @ before @ [(AttachmentGetCall msg_id a, False)])))"
proof (intro conjI impI allI)
  assume "mimeType m = None"
  then show "parse_email_body l c m msg_id s = (Inl AttributeError, s)"
    by (simp add: parse_email_body_split_error split_mimeType_absent)
next
  fix t
  assume "mimeType m = Some t \<and> count_list t CHR ''/'' \<noteq> 1"
  then show "parse_email_body l c m msg_id s = (Inl ValueError, s)"
    by (simp add: parse_email_body_split_error split_mimeType_count)
next
  assume "list_all declares_type (subtree m)"
  then show "\<forall>p \<in> set (subtree m). \<exists>a b. split_mimeType (mimeType p) = Inr (a, b)"
    by (auto simp: list_all_iff intro: declares_type_split)
next
  fix e s'
  assume "list_all declares_type (subtree m)"
    and "parse_email_body l c m msg_id s = (Inl e, s') \<and> e \<in> {AttributeError, ValueError}"
  then show "\<exists>before a. calls s' = calls s @ before @ [(AttachmentGetCall msg_id a, False)]"
    using split_errors_from_fetch(1) by blast
qed

theorem mimeType_split_partial_witness:
  "parse_email_body py_lib mailbox_client (Part None None None None None) (Some ''m1'')
     (start empty_mailbox) = (Inl AttributeError, start empty_mailbox) \<and>
   parse_email_body py_lib mailbox_client (Part (Some ''text'') None None None None) (Some ''m1'')
     (start empty_mailbox) = (Inl ValueError, start empty_mailbox) \<and>
   parse_email_body py_lib mailbox_client (Part (Some ''a/b/c'') None None None None) (Some ''m1'')
     (start empty_mailbox) = (Inl ValueError, start empty_mailbox) \<and>
   list_all declares_type (subtree mixed_part) \<and>
   list_all (\<lambda>p. \<exists>a b. split_mimeType (mimeType p) = Inr (a, b)) (subtree mixed_part)"
proof -
  have absent: "mimeType (Part None None None None None) = None"
    by simp
  have one: "mimeType (Part (Some ''text'') None None None None) = Some ''text'' \<and>
      count_list ''text'' CHR ''/'' \<noteq> 1"
    by simp
  have three: "mimeType (Part (Some ''a/b/c'') None None None None) = Some ''a/b/c'' \<and>
      count_list ''a/b/c'' CHR ''/'' \<noteq> 1"
    by simp
  have declared: "list_all declares_type (subtree mixed_part)"
    by (simp add: mixed_part_def note_part_def report_part_def declares_type_def)
  show ?thesis
    using absent one three declared
      mimeType_split_partial [of "Part None None None None None" py_lib mailbox_client
        "Some ''m1''" "start empty_mailbox"]
      mimeType_split_partial [of "Part (Some ''text'') None None None None" py_lib mailbox_client
        "Some ''m1''" "start empty_mailbox"]
      mimeType_split_partial [of "Part (Some ''a/b/c'') None None None None" py_lib mailbox_client
        "Some ''m1''" "start empty_mailbox"]
      mimeType_split_partial [of mixed_part py_lib mailbox_client "Some ''m1''"
        "start empty_mailbox"]
    unfolding list_all_iff [of "\<lambda>p. \<exists>a b. split_mimeType (mimeType p) = Inr (a, b)"]
    by blast
qed

text \<open>
  C2, as the code has it. A part that is neither textual nor named is a container.
  Without a \<open>parts\<close> entry its reconstruction raises \<open>TypeError\<close>; with an empty list of
  parts it succeeds, and the result is a container to which nothing is attached.
\<close>

theorem container_without_children:
  assumes "split_mimeType (mimeType m) = Inr (mime_type, mime_subtype)"
    and "mime_type \<noteq> ''text''"
    and "\<not> truthy (filename m)"
  shows "(parts m = None \<longrightarrow> parse_email_body l c m msg_id s = (Inl TypeError, s)) \<and>
         (parts m = Some [] \<longrightarrow>
            parse_email_body l c m msg_id s =
              (Inr (MIMEBase_container mime_type mime_subtype []), s))"
  using assms by (cases m) auto

theorem container_without_children_witness:
  "split_mimeType (mimeType hollow_part) = Inr (''multipart'', ''mixed'') \<and>
   ''multipart'' \<noteq> ''text'' \<and> \<not> truthy (filename hollow_part) \<and>
   parts hollow_part = Some [] \<and>
   parse_email_body py_lib mailbox_client hollow_part (Some ''m1'') (start empty_mailbox) =
     (Inr (MIMEBase_container ''multipart'' ''mixed'' []), start empty_mailbox) \<and>
   split_mimeType (mimeType (Part (Some ''image/png'') None None None None)) =
     Inr (''image'', ''png'') \<and>
   parse_email_body py_lib mailbox_client (Part (Some ''image/png'') None None None None)
     (Some ''m1'') (start empty_mailbox) = (Inl TypeError, start empty_mailbox)"
proof -
  have a1: "split_mimeType (mimeType hollow_part) = Inr (''multipart'', ''mixed'')"
    by (simp add: hollow_part_def split_mimeType_def)
  have a2: "''multipart'' \<noteq> ''text''" by simp
  have a3: "\<not> truthy (filename hollow_part)" by (simp add: hollow_part_def)
  have a4: "parts hollow_part = Some []" by (simp add: hollow_part_def)
  have b1: "split_mimeType (mimeType (Part (Some ''image/png'') None None None None)) =
      Inr (''image'', ''png'')"
    by (simp add: split_mimeType_def)
  have b2: "''image'' \<noteq> ''text''" by simp
  have b3: "\<not> truthy (filename (Part (Some ''image/png'') None None None None))" by simp
  have b4: "parts (Part (Some ''image/png'') None None None None) = None" by simp
  show ?thesis
    using a1 a2 a3 a4 b1 b4
      container_without_children [OF a1 a2 a3, of py_lib mailbox_client "Some ''m1''"
        "start empty_mailbox"]
      container_without_children [OF b1 b2 b3, of py_lib mailbox_client "Some ''m1''"
        "start empty_mailbox"]
    by simp
qed

text \<open>
  C2, as the claim states it, fails: the reconstruction of a container with an empty list
  of parts returns a container with nothing attached, and raises no exception.
\<close>

theorem container_without_children_counterexample:
  "parse_email_body py_lib mailbox_client
     (Part (Some ''multipart/mixed'') None None (Some []) None) (Some ''m1'')
     (start empty_mailbox) =
   (Inr (MIMEBase_container ''multipart'' ''mixed'' []), start empty_mailbox)"
  by (simp add: split_mimeType_def)

lemma text_part_decoded:
  "bd = Some b \<Longrightarrow> data b = Some d \<Longrightarrow> is_ascii d \<Longrightarrow> urlsafe_b64decode l d = Some decoded \<Longrightarrow>
     decode_utf8 l decoded = Some content \<Longrightarrow>
     text_part l bd st = Inr (MIMEText content st)"
  by (simp add: text_part_def)

lemma text_part_not_inline:
  "bd = None \<or> bd = Some b \<and> data b = None \<Longrightarrow> text_part l bd st = Inl KeyError"
  by (auto simp: text_part_def)

lemma attachment_part_inline:
  "bd = Some b \<Longrightarrow> data b = Some d \<Longrightarrow> urlsafe_b64decode l d = Some decoded \<Longrightarrow>
     attachment_part l c mt st fn bd i s = (Inr (MIMEBase_attachment mt st decoded fn), s)"
  by (simp add: attachment_part_def attachment_bytes_def)

text \<open>
  C4, as the code has it. The branches are tried in a fixed order: the text check, then
  the file name, then the container. A part whose declared type is \<open>text\<close> is handled by
  the text branch whatever else it carries: with inline data that decodes it is
  reconstructed as a text part, without inline data the branch raises \<open>KeyError\<close>, and in
  both cases no request is executed, so with a file name it is never an attachment. A
  part of another type with a file name is handled by the attachment branch, also when
  it has parts; any other part is handled by the container branch.
\<close>

theorem branch_priority:
  assumes "split_mimeType (mimeType m) = Inr (mime_type, mime_subtype)"
  shows "(mime_type = ''text'' \<longrightarrow>
            parse_email_body l c m msg_id s = (text_part l (part_body m) mime_subtype, s)) \<and>
         (mime_type \<noteq> ''text'' \<and> truthy (filename m) \<longrightarrow>
            parse_email_body l c m msg_id s =
              attachment_part l c mime_type mime_subtype (the (filename m)) (part_body m) msg_id s) \<and>
         (mime_type \<noteq> ''text'' \<and> \<not> truthy (filename m) \<longrightarrow>
            parse_email_body l c m msg_id s =
              (case parts m of
                 None \<Rightarrow> (Inl TypeError, s)
               | Some subparts \<Rightarrow>
                   (case attach_subparts l c subparts msg_id [] s of
                      (Inl e, s') \<Rightarrow> (Inl e, s')
                    | (Inr children, s') \<Rightarrow>
                        (Inr (MIMEBase_container mime_type mime_subtype children), s')))) \<and>
         (\<forall>b d decoded content.
            mime_type = ''text'' \<and> part_body m = Some b \<and> data b = Some d \<and> is_ascii d \<and>
            urlsafe_b64decode l d = Some decoded \<and> decode_utf8 l decoded = Some content \<longrightarrow>
            parse_email_body l c m msg_id s = (Inr (MIMEText content mime_subtype), s)) \<and>
         (\<forall>b. mime_type = ''text'' \<and>
              (part_body m = None \<or> part_body m = Some b \<and> data b = None) \<longrightarrow>
            parse_email_body l c m msg_id s = (Inl KeyError, s)) \<and>
         (\<forall>b d decoded.
            mime_type \<noteq> ''text'' \<and> truthy (filename m) \<and> part_body m = Some b \<and>
            data b = Some d \<and> urlsafe_b64decode l d = Some decoded \<longrightarrow>
            parse_email_body l c m msg_id s =
              (Inr (MIMEBase_attachment mime_type mime_subtype decoded (the (filename m))), s)) \<and>
         (\<forall>subparts children s'.
            mime_type \<noteq> ''text'' \<and> \<not> truthy (filename m) \<and> parts m = Some subparts \<and>
            attach_subparts l c subparts msg_id [] s = (Inr children, s') \<longrightarrow>
            parse_email_body l c m msg_id s =
              (Inr (MIMEBase_container mime_type mime_subtype children), s')) \<and>
         (\<forall>r s'. parse_email_body l c m msg_id s = (Inr r, s') \<longrightarrow>
            kind_of r = (if mime_type = ''text'' then Text
                         else if truthy (filename m) then Attachment else Container))"
proof -
  obtain mt fn bd ps hs where m: "m = Part mt fn bd ps hs" by (cases m)
  with assms have sp: "split_mimeType mt = Inr (mime_type, mime_subtype)" by simp
  have txt_branch: "mime_type = ''text'' \<Longrightarrow>
      parse_email_body l c m msg_id s = (text_part l (part_body m) mime_subtype, s)"
    using sp m by simp
  have att: "mime_type \<noteq> ''text'' \<Longrightarrow> truthy (filename m) \<Longrightarrow>
      parse_email_body l c m msg_id s =
        attachment_part l c mime_type mime_subtype (the (filename m)) (part_body m) msg_id s"
    using sp m by simp
  have cont: "mime_type \<noteq> ''text'' \<Longrightarrow> \<not> truthy (filename m) \<Longrightarrow>
      parse_email_body l c m msg_id s =
        (case parts m of
           None \<Rightarrow> (Inl TypeError, s)
         | Some subparts \<Rightarrow>
             (case attach_subparts l c subparts msg_id [] s of
                (Inl e, s') \<Rightarrow> (Inl e, s')
              | (Inr children, s') \<Rightarrow>
                  (Inr (MIMEBase_container mime_type mime_subtype children), s')))"
    using sp m by simp
  have kinds: "\<And>r s'. parse_email_body l c m msg_id s = (Inr r, s') \<Longrightarrow>
      kind_of r = (if mime_type = ''text'' then Text
                   else if truthy (filename m) then Attachment else Container)"
    using sp m
    by (auto split: option.splits prod.splits sum.splits
        dest: text_part_kind attachment_part_kind)
  show ?thesis
  proof (intro conjI impI allI)
    fix b d decoded content
    assume "mime_type = ''text'' \<and> part_body m = Some b \<and> data b = Some d \<and> is_ascii d \<and>
            urlsafe_b64decode l d = Some decoded \<and> decode_utf8 l decoded = Some content"
    then show "parse_email_body l c m msg_id s = (Inr (MIMEText content mime_subtype), s)"
      using txt_branch by (simp add: text_part_decoded)
  next
    fix b
    assume a: "mime_type = ''text'' \<and>
              (part_body m = None \<or> part_body m = Some b \<and> data b = None)"
    then have "part_body m = None \<or> part_body m = Some b \<and> data b = None"
      by simp
    then have "text_part l (part_body m) mime_subtype = Inl KeyError"
      by (rule text_part_not_inline)
    with a txt_branch show "parse_email_body l c m msg_id s = (Inl KeyError, s)" by simp
  next
    fix b d decoded
    assume "mime_type \<noteq> ''text'' \<and> truthy (filename m) \<and> part_body m = Some b \<and>
            data b = Some d \<and> urlsafe_b64decode l d = Some decoded"
    then show "parse_email_body l c m msg_id s =
              (Inr (MIMEBase_attachment mime_type mime_subtype decoded (the (filename m))), s)"
      using att by (simp add: attachment_part_inline)
  next
    fix subparts children s'
    assume "mime_type \<noteq> ''text'' \<and> \<not> truthy (filename m) \<and> parts m = Some subparts \<and>
            attach_subparts l c subparts msg_id [] s = (Inr children, s')"
    then show "parse_email_body l c m msg_id s =
              (Inr (MIMEBase_container mime_type mime_subtype children), s')"
      using cont by simp
  qed (use txt_branch att cont kinds in blast)+
qed

theorem branch_priority_witness:
  "split_mimeType (mimeType note_part) = Inr (''text'', ''plain'') \<and>
   truthy (filename note_part) \<and>
   parse_email_body py_lib mailbox_client note_part (Some ''m1'') (start empty_mailbox) =
     (Inr (MIMEText ''hello'' ''plain''), start empty_mailbox) \<and>
   kind_of (MIMEText ''hello'' ''plain'') = Text \<and>
   split_mimeType (mimeType stored_note_part) = Inr (''text'', ''plain'') \<and>
   truthy (filename stored_note_part) \<and>
   parse_email_body py_lib mailbox_client stored_note_part (Some ''m1'') (start empty_mailbox) =
     (Inl KeyError, start empty_mailbox) \<and>
   split_mimeType (mimeType named_container_part) = Inr (''application'', ''pdf'') \<and>
   truthy (filename named_container_part) \<and>
   parts named_container_part = Some [note_part] \<and>
   parse_email_body py_lib mailbox_client named_container_part (Some ''m1'')
     (start empty_mailbox) =
     (Inr (MIMEBase_attachment ''application'' ''pdf'' ''PDF!'' ''report.pdf''),
      start empty_mailbox) \<and>
   split_mimeType (mimeType mixed_part) = Inr (''multipart'', ''mixed'') \<and>
   \<not> truthy (filename mixed_part) \<and>
   parse_email_body py_lib mailbox_client mixed_part (Some ''m1'') (start empty_mailbox) =
     (Inr (MIMEBase_container ''multipart'' ''mixed''
        [MIMEText ''hello'' ''plain'',
         MIMEBase_attachment ''application'' ''pdf'' ''PDF!'' ''report.pdf'']),
      start empty_mailbox)"
proof -
  let ?s = "start empty_mailbox"
  have n1: "split_mimeType (mimeType note_part) = Inr (''text'', ''plain'')"
    by (simp add: note_part_def split_mimeType_def)
  have n2: "truthy (filename note_part)"
    by (simp add: note_part_def)
  have n3: "''text'' = ''text'' \<and>
      part_body note_part = Some \<lparr>data = Some ''aGVsbG8='', attachmentId = None\<rparr> \<and>
      data \<lparr>data = Some ''aGVsbG8='', attachmentId = None\<rparr> = Some ''aGVsbG8='' \<and>
      is_ascii ''aGVsbG8='' \<and>
      urlsafe_b64decode py_lib ''aGVsbG8='' = Some ''hello'' \<and>
      decode_utf8 py_lib ''hello'' = Some ''hello''"
    by code_simp
  have t1: "split_mimeType (mimeType stored_note_part) = Inr (''text'', ''plain'')"
    by (simp add: stored_note_part_def split_mimeType_def)
  have t2: "truthy (filename stored_note_part)"
    by (simp add: stored_note_part_def)
  have t3: "''text'' = ''text'' \<and>
      (part_body stored_note_part = None \<or>
       part_body stored_note_part = Some \<lparr>data = None, attachmentId = Some ''att1''\<rparr> \<and>
       data \<lparr>data = None, attachmentId = Some ''att1''\<rparr> = None)"
    by (simp add: stored_note_part_def)
  have a1: "split_mimeType (mimeType named_container_part) = Inr (''application'', ''pdf'')"
    by (simp add: named_container_part_def split_mimeType_def)
  have a2: "truthy (filename named_container_part)"
    "the (filename named_container_part) = ''report.pdf''"
    "parts named_container_part = Some [note_part]"
    by (simp_all add: named_container_part_def)
  have a3: "''application'' \<noteq> ''text'' \<and> truthy (filename named_container_part) \<and>
      part_body named_container_part = Some \<lparr>data = Some ''UERGIQ=='', attachmentId = None\<rparr> \<and>
      data \<lparr>data = Some ''UERGIQ=='', attachmentId = None\<rparr> = Some ''UERGIQ=='' \<and>
      urlsafe_b64decode py_lib ''UERGIQ=='' = Some ''PDF!''"
    by code_simp
  have c1: "split_mimeType (mimeType mixed_part) = Inr (''multipart'', ''mixed'')"
    by (simp add: mixed_part_def split_mimeType_def)
  have c2: "\<not> truthy (filename mixed_part)"
    by (simp add: mixed_part_def)
  have c3: "''multipart'' \<noteq> ''text'' \<and> \<not> truthy (filename mixed_part) \<and>
      parts mixed_part = Some [note_part, report_part] \<and>
      attach_subparts py_lib mailbox_client [note_part, report_part] (Some ''m1'') [] ?s =
        (Inr [MIMEText ''hello'' ''plain'',
              MIMEBase_attachment ''application'' ''pdf'' ''PDF!'' ''report.pdf''], ?s)"
    by code_simp
  from branch_priority[OF n1, of py_lib mailbox_client "Some ''m1''" ?s] n3
  have r1: "parse_email_body py_lib mailbox_client note_part (Some ''m1'') ?s =
      (Inr (MIMEText ''hello'' ''plain''), ?s)"
    by blast
  from branch_priority[OF t1, of py_lib mailbox_client "Some ''m1''" ?s] t3
  have r2: "parse_email_body py_lib mailbox_client stored_note_part (Some ''m1'') ?s =
      (Inl KeyError, ?s)"
    by blast
  from branch_priority[OF a1, of py_lib mailbox_client "Some ''m1''" ?s] a3
  have r3: "parse_email_body py_lib mailbox_client named_container_part (Some ''m1'') ?s =
      (Inr (MIMEBase_attachment ''application'' ''pdf'' ''PDF!''
              (the (filename named_container_part))), ?s)"
    by blast
  from branch_priority[OF c1, of py_lib mailbox_client "Some ''m1''" ?s] c3
  have r4: "parse_email_body py_lib mailbox_client mixed_part (Some ''m1'') ?s =
      (Inr (MIMEBase_container ''multipart'' ''mixed''
          [MIMEText ''hello'' ''plain'',
           MIMEBase_attachment ''application'' ''pdf'' ''PDF!'' ''report.pdf'']), ?s)"
    by blast
  show ?thesis
    using n1 n2 r1 t1 t2 r2 a1 a2 r3 c1 c2 r4 by simp
qed

text \<open>
  C4, as the claim states it, fails: a text part with a file name whose data is not inline
  (the service stores it under an attachment id) is not reconstructed as a text part: the
  text branch raises \<open>KeyError\<close>.
\<close>

theorem branch_priority_counterexample:
  "parse_email_body py_lib mailbox_client
     (Part (Some ''text/plain'') (Some ''notes.txt'')
        (Some \<lparr>data = None, attachmentId = Some ''att1''\<rparr>) None None)
     (Some ''m1'') (start empty_mailbox) =
   (Inl KeyError, start empty_mailbox)"
  by (simp add: split_mimeType_def text_part_def)

text \<open>
  C9. Reconstruction terminates on every tree of parts. Every argument of
  \<open>parse_email_body\<close> is in the domain on which its recursion is well founded, and the
  relation between a part and the parts below it is well founded: the recursive calls
  are made on the parts of the \<open>parts\<close> list, which are strict substructures of the part.
\<close>

theorem parse_email_body_terminates:
  "parse_email_body_attach_subparts_dom (Inl (l, c, m, msg_id, s)) \<and>
   wf {(child, parent). child \<in> set (tl (subtree parent))}"
proof
  have "All (parse_email_body_attach_subparts_dom ::
      (lib \<times> 'a client \<times> part \<times> string option \<times> 'a state +
       lib \<times> 'a client \<times> part list \<times> string option \<times> mime list \<times> 'a state) \<Rightarrow> bool)"
    by (relation "measure (\<lambda>x. case x of
          Inl (l, c, m, msg_id, s) \<Rightarrow> size m
        | Inr (l, c, ms, msg_id, acc, s) \<Rightarrow> size_list size ms)") auto
  then show "parse_email_body_attach_subparts_dom (Inl (l, c, m, msg_id, s))"
    by blast
next
  show "wf {(child, parent). child \<in> set (tl (subtree parent))}"
    by (rule wf_subset[OF wf_measure[of size]]) (auto dest: below_size)
qed

section \<open>The requests of a cycle\<close>

lemma attachment_part_fetches:
  "attachment_part l c mt st fn bd i s = (r, s') \<Longrightarrow>
     \<exists>new. calls s' = calls s @ new \<and> list_all (\<lambda>x. is_attachment_get (fst x)) new"
  by (auto simp: attachment_part_def execute_def
      split: option.splits if_splits prod.splits sum.splits)

lemma calls_fetches:
  fixes l :: lib and c :: "'w client"
  shows "parse_email_body l c m msg_id s = (r, s') \<Longrightarrow>
           \<exists>new. calls s' = calls s @ new \<and> list_all (\<lambda>x. is_attachment_get (fst x)) new"
    and "attach_subparts l c ms msg_id acc s = (rs, s') \<Longrightarrow>
           \<exists>new. calls s' = calls s @ new \<and> list_all (\<lambda>x. is_attachment_get (fst x)) new"
proof (induction l c m msg_id s and l c ms msg_id acc s arbitrary: r s' and rs s'
        rule: parse_email_body_attach_subparts.induct)
  case (1 l c mt fn bd ps hs msg_id s)
  show ?case
  proof (cases "split_mimeType mt")
    case (Inl e)
    with "1.prems" show ?thesis by simp
  next
    case (Inr ab)
    obtain a b where ab: "ab = (a, b)" by (cases ab)
    show ?thesis
    proof (cases "a = ''text''")
      case True
      with Inr ab "1.prems" show ?thesis by auto
    next
      case False
      note nt = this
      show ?thesis
      proof (cases "truthy fn")
        case True
        with Inr ab nt "1.prems" show ?thesis by (auto dest: attachment_part_fetches)
      next
        case False
        show ?thesis
        proof (cases ps)
          case None
          with Inr ab nt False "1.prems" show ?thesis by auto
        next
          case (Some subparts)
          obtain rs s1 where sub: "attach_subparts l c subparts msg_id [] s = (rs, s1)"
            by (cases "attach_subparts l c subparts msg_id [] s")
          with Inr ab nt False Some "1.prems" have "s' = s1"
            by (auto split: sum.splits)
          with "1.IH"[OF Inr[unfolded ab] refl nt False Some sub] show ?thesis by simp
        qed
      qed
    qed
  qed
next
  case (2 l c msg_id acc s)
  then show ?case by simp
next
  case (3 l c subpart rest msg_id acc s)
  obtain r1 s1 where first: "parse_email_body l c subpart msg_id s = (r1, s1)"
    by (cases "parse_email_body l c subpart msg_id s")
  from "3.IH"(1)[OF first] obtain new1
    where n1: "calls s1 = calls s @ new1" "list_all (\<lambda>x. is_attachment_get (fst x)) new1"
    by blast
  show ?case
  proof (cases r1)
    case (Inl e)
    with first "3.prems" have "s' = s1" by simp
    with n1 show ?thesis by simp
  next
    case (Inr p)
    with first "3.prems" have "attach_subparts l c rest msg_id (acc @ [p]) s1 = (rs, s')"
      by simp
    from "3.IH"(2)[OF first[symmetric] Inr this] obtain new2
      where n2: "calls s' = calls s1 @ new2" "list_all (\<lambda>x. is_attachment_get (fst x)) new2"
      by blast
    from n1 n2 have "calls s' = calls s @ (new1 @ new2)"
      "list_all (\<lambda>x. is_attachment_get (fst x)) (new1 @ new2)" by simp_all
    then show ?thesis by blast
  qed
qed

lemma replied_subset:
  "replied l account el i new \<Longrightarrow> set new \<subseteq> set new' \<Longrightarrow> replied l account el i new'"
  unfolding replied_def by blast

lemma replied_mono: "replied l account el i new \<Longrightarrow> replied l account el i (pre @ new @ post)"
  by (erule replied_subset) auto

lemma forward_email_calls:
  assumes "forward_email l c account el m s = (r, s')"
  shows "\<exists>new. calls s' = calls s @ new \<and> list_all (\<lambda>x. \<not> is_batch_modify (fst x)) new \<and>
           (\<forall>i. r = Inr i \<longrightarrow> i = ident m \<and> replied l account el i new)"
proof (cases "payload m")
  case None
  with assms show ?thesis by (auto simp: forward_email_def)
next
  case (Some pl)
  note pl = this
  show ?thesis
  proof (cases "headers pl")
    case None
    with assms pl show ?thesis by (auto simp: forward_email_def)
  next
    case (Some hs)
    note hs = this
    obtain r1 s1 where parse: "parse_email_body l c pl (ident m) s = (r1, s1)"
      by (cases "parse_email_body l c pl (ident m) s")
    from calls_fetches(1)[OF parse] obtain new1
      where n1: "calls s1 = calls s @ new1" "list_all (\<lambda>x. is_attachment_get (fst x)) new1"
      by blast
    have nm1: "list_all (\<lambda>x. \<not> is_batch_modify (fst x)) new1"
      using n1(2) by (induction new1) (auto elim: is_attachment_get.elims)
    show ?thesis
    proof (cases r1)
      case (Inl e)
      with assms pl hs parse have "s' = s1" "r = Inl e" by (auto simp: forward_email_def)
      with n1 nm1 show ?thesis by auto
    next
      case (Inr p)
      note p = this
      show ?thesis
      proof (cases el)
        case None
        with assms pl hs parse p have "s' = s1" "r = Inl AttributeError"
          by (auto simp: forward_email_def)
        with n1 nm1 show ?thesis by auto
      next
        case (Some rule)
        note rule = this
        let ?msg = "build_message account rule m (get_subject hs (Some [])) p"
        show ?thesis
        proof (cases "serialize l ?msg")
          case (Inl e)
          with assms pl hs parse p rule have "s' = s1" "r = Inl e"
            by (auto simp: forward_email_def)
          with n1 nm1 show ?thesis by auto
        next
          case (Inr serialized)
          let ?reply = "\<lparr>raw = urlsafe_b64encode l serialized, reply_threadId = threadId m\<rparr>"
          obtain r2 s2 where send: "execute (SendCall ?reply) (messages_send c ?reply) s1 = (r2, s2)"
            by (cases "execute (SendCall ?reply) (messages_send c ?reply) s1")
          from execute_calls[OF send] have c2: "calls s2 = calls s1 @ [(SendCall ?reply, \<not> isl r2)]" .
          from assms pl hs parse p rule Inr send have res: "s' = s2" "r = (case r2 of Inl e \<Rightarrow> Inl e | Inr u \<Rightarrow> Inr (ident m))"
            by (auto simp: forward_email_def split: sum.splits)
          have "calls s' = calls s @ (new1 @ [(SendCall ?reply, \<not> isl r2)])"
            using c2 n1 res by simp
          moreover have "list_all (\<lambda>x. \<not> is_batch_modify (fst x)) (new1 @ [(SendCall ?reply, \<not> isl r2)])"
            using nm1 by simp
          moreover have "\<forall>i. r = Inr i \<longrightarrow> i = ident m \<and> replied l account el i (new1 @ [(SendCall ?reply, \<not> isl r2)])"
          proof (intro allI impI)
            fix i assume "r = Inr i"
            with res obtain u where "r2 = Inr u" "i = ident m" by (auto split: sum.splits)
            then show "i = ident m \<and> replied l account el i (new1 @ [(SendCall ?reply, \<not> isl r2)])"
              using rule Inr unfolding replied_def by auto
          qed
          ultimately show ?thesis by blast
        qed
      qed
    qed
  qed
qed

lemma process_unread_emails_calls:
  "process_unread_emails l c account el ems pids s = (r, s') \<Longrightarrow>
     \<exists>new. calls s' = calls s @ new \<and> list_all (\<lambda>x. \<not> is_batch_modify (fst x)) new \<and>
       (\<forall>pids'. r = Inr pids' \<longrightarrow>
          (\<exists>added. pids' = pids @ added \<and> (\<forall>i \<in> set added. replied l account el i new)))"
proof (induction l c account el ems pids s arbitrary: r s' rule: process_unread_emails.induct)
  case (1 l c account el pids s)
  then show ?case by auto
next
  case (2 l c account el exception rest pids s)
  then show ?case by simp
next
  case (3 l c account el m rest pids s)
  obtain r1 s1 where fw: "forward_email l c account el m s = (r1, s1)"
    by (cases "forward_email l c account el m s")
  from forward_email_calls[OF fw] obtain new1
    where n1: "calls s1 = calls s @ new1" "list_all (\<lambda>x. \<not> is_batch_modify (fst x)) new1"
      "\<forall>i. r1 = Inr i \<longrightarrow> i = ident m \<and> replied l account el i new1"
    by blast
  show ?case
  proof (cases r1)
    case (Inl e)
    show ?thesis
    proof (cases "isinstance_RuntimeError e")
      case True
      with fw Inl "3.prems" have "process_unread_emails l c account el rest pids s1 = (r, s')"
        by simp
      from "3.IH"(1)[OF fw[symmetric] Inl True this] obtain new2
        where n2: "calls s' = calls s1 @ new2" "list_all (\<lambda>x. \<not> is_batch_modify (fst x)) new2"
          "\<forall>pids'. r = Inr pids' \<longrightarrow>
            (\<exists>added. pids' = pids @ added \<and> (\<forall>i \<in> set added. replied l account el i new2))"
        by blast
      have "calls s' = calls s @ (new1 @ new2)" using n1 n2 by simp
      moreover have "list_all (\<lambda>x. \<not> is_batch_modify (fst x)) (new1 @ new2)" using n1 n2 by simp
      moreover have "\<forall>pids'. r = Inr pids' \<longrightarrow>
            (\<exists>added. pids' = pids @ added \<and> (\<forall>i \<in> set added. replied l account el i (new1 @ new2)))"
        using n2(3) replied_mono[of l account el _ new2 new1 "[]"] by fastforce
      ultimately show ?thesis by blast
    next
      case False
      with fw Inl "3.prems" have "r = Inl e" "s' = s1" by simp_all
      with n1 show ?thesis by auto
    qed
  next
    case (Inr i)
    with fw "3.prems" have "process_unread_emails l c account el rest (pids @ [i]) s1 = (r, s')"
      by simp
    from "3.IH"(2)[OF fw[symmetric] Inr this] obtain new2
      where n2: "calls s' = calls s1 @ new2" "list_all (\<lambda>x. \<not> is_batch_modify (fst x)) new2"
        "\<forall>pids'. r = Inr pids' \<longrightarrow>
          (\<exists>added. pids' = (pids @ [i]) @ added \<and> (\<forall>i \<in> set added. replied l account el i new2))"
      by blast
    from n1(3) Inr have ri: "replied l account el i new1" by blast
    have "calls s' = calls s @ (new1 @ new2)" using n1 n2 by simp
    moreover have "list_all (\<lambda>x. \<not> is_batch_modify (fst x)) (new1 @ new2)" using n1 n2 by simp
    moreover have "\<forall>pids'. r = Inr pids' \<longrightarrow>
          (\<exists>added. pids' = pids @ added \<and> (\<forall>i \<in> set added. replied l account el i (new1 @ new2)))"
    proof (intro allI impI)
      fix pids' assume "r = Inr pids'"
      with n2(3) obtain added where a: "pids' = (pids @ [i]) @ added"
        "\<forall>j \<in> set added. replied l account el j new2" by blast
      have "\<forall>j \<in> set (i # added). replied l account el j (new1 @ new2)"
        using a(2) ri replied_mono[of l account el _ new2 new1 "[]"]
          replied_mono[of l account el _ new1 "[]" new2] by auto
      with a(1) show "\<exists>added. pids' = pids @ added \<and> (\<forall>i \<in> set added. replied l account el i (new1 @ new2))"
        by (intro exI[of _ "i # added"]) simp
    qed
    ultimately show ?thesis by blast
  qed
qed


lemma cycle_body_calls:
  assumes "cycle_body l c account el s = (r, s')"
  shows "\<exists>new. calls s' = calls s @ new \<and>
     (\<forall>ids ok. (BatchModifyCall ids, ok) \<in> set new \<longrightarrow>
        (\<exists>before. new = before @ [(BatchModifyCall ids, ok)] \<and>
           list_all (\<lambda>x. \<not> is_batch_modify (fst x)) before \<and>
           (\<forall>i \<in> set ids. replied l account el i before)))"
proof -
  obtain r1 s1 where list: "execute ListCall (messages_list c) s = (r1, s1)"
    by (cases "execute ListCall (messages_list c) s")
  from execute_calls[OF list] have c1: "calls s1 = calls s @ [(ListCall, \<not> isl r1)]" .
  show ?thesis
  proof (cases r1)
    case (Inl e)
    with assms list have "s' = s1" by (simp add: cycle_body_def)
    with c1 show ?thesis by auto
  next
    case (Inr result)
    define ids where "ids = (case result of None \<Rightarrow> [] | Some ms \<Rightarrow> ms)"
    obtain r2 s2 where get: "execute (BatchGetCall ids) (batch_get c ids) s1 = (r2, s2)"
      by (cases "execute (BatchGetCall ids) (batch_get c ids) s1")
    from execute_calls[OF get] have c2: "calls s2 = calls s1 @ [(BatchGetCall ids, \<not> isl r2)]" .
    show ?thesis
    proof (cases r2)
      case (Inl e)
      with assms list Inr get have "s' = s2" by (simp add: cycle_body_def ids_def)
      with c1 c2 show ?thesis by auto
    next
      case get_ok: (Inr unread_emails)
      obtain r3 s3 where loop: "process_unread_emails l c account el unread_emails [] s2 = (r3, s3)"
        by (cases "process_unread_emails l c account el unread_emails [] s2")
      from process_unread_emails_calls[OF loop] obtain new3
        where n3: "calls s3 = calls s2 @ new3" "list_all (\<lambda>x. \<not> is_batch_modify (fst x)) new3"
          "\<forall>pids'. r3 = Inr pids' \<longrightarrow> (\<forall>i \<in> set pids'. replied l account el i new3)"
        by fastforce
      show ?thesis
      proof (cases r3)
        case (Inl e)
        with assms list Inr get get_ok loop have "s' = s3" by (simp add: cycle_body_def ids_def)
        with c1 c2 n3 have "calls s' = calls s @ ([(ListCall, \<not> isl r1), (BatchGetCall ids, \<not> isl r2)] @ new3)"
          by simp
        moreover have "\<forall>x \<in> set ([(ListCall, \<not> isl r1), (BatchGetCall ids, \<not> isl r2)] @ new3). \<not> is_batch_modify (fst x)"
          using n3(2) by (auto simp: list_all_iff)
        ultimately show ?thesis by (metis fst_conv is_batch_modify.simps(1))
      next
        case loop_ok: (Inr pids)
        obtain r4 s4 where modify: "execute (BatchModifyCall pids) (batch_modify c pids) s3 = (r4, s4)"
          by (cases "execute (BatchModifyCall pids) (batch_modify c pids) s3")
        from execute_calls[OF modify] have c4: "calls s4 = calls s3 @ [(BatchModifyCall pids, \<not> isl r4)]" .
        from assms list Inr get get_ok loop loop_ok modify have "s' = s4"
          by (simp add: cycle_body_def ids_def)
        let ?before = "[(ListCall, \<not> isl r1), (BatchGetCall ids, \<not> isl r2)] @ new3"
        have all: "calls s' = calls s @ (?before @ [(BatchModifyCall pids, \<not> isl r4)])"
          using c1 c2 n3(1) c4 \<open>s' = s4\<close> by simp
        have nb: "list_all (\<lambda>x. \<not> is_batch_modify (fst x)) ?before"
          using n3(2) by simp
        have rp: "\<forall>i \<in> set pids. replied l account el i ?before"
          using n3(3) loop_ok replied_mono[of l account el _ new3 "[(ListCall, \<not> isl r1), (BatchGetCall ids, \<not> isl r2)]" "[]"]
          by auto
        have "\<forall>ids' ok. (BatchModifyCall ids', ok) \<in> set (?before @ [(BatchModifyCall pids, \<not> isl r4)]) \<longrightarrow>
             ids' = pids \<and> ok = (\<not> isl r4)"
          using nb by (auto simp: list_all_iff)
        with all nb rp show ?thesis by blast
      qed
    qed
  qed
qed

lemma get_subject_absent:
  "\<forall>h \<in> set hs. name h \<noteq> Some ''Subject'' \<Longrightarrow> get_subject hs subj = subj"
  by (induction hs arbitrary: subj) auto

lemma get_subject_last:
  "name h = Some ''Subject'' \<Longrightarrow> \<forall>x \<in> set after. name x \<noteq> Some ''Subject'' \<Longrightarrow>
     get_subject (before @ h # after) subj = header_value h"
  by (induction before arbitrary: subj) (auto simp: get_subject_absent)

section \<open>The examples, evaluated\<close>

lemma decode_hello: "py_urlsafe_b64decode ''aGVsbG8='' = Some ''hello''" by code_simp
lemma decode_pdf: "py_urlsafe_b64decode ''UERGIQ=='' = Some ''PDF!''" by code_simp
lemma decode_a: "py_urlsafe_b64decode ''a'' = None" by code_simp
lemma utf8_hello: "py_decode_utf8 ''hello'' = Some ''hello''" by code_simp
lemma ascii_hello: "is_ascii ''aGVsbG8=''" by code_simp
lemma ascii_a: "is_ascii ''a''" by code_simp

lemma split_plain: "split_mimeType (Some ''text/plain'') = Inr (''text'', ''plain'')" by code_simp
lemma split_pdf: "split_mimeType (Some ''application/pdf'') = Inr (''application'', ''pdf'')" by code_simp
lemma split_mixed: "split_mimeType (Some ''multipart/mixed'') = Inr (''multipart'', ''mixed'')" by code_simp

lemma py_lib_sel:
  "urlsafe_b64decode py_lib = py_urlsafe_b64decode"
  "decode_utf8 py_lib = py_decode_utf8"
  "serialize py_lib = render"
  "urlsafe_b64encode py_lib = py_urlsafe_b64encode"
  by (simp_all add: py_lib_def)

lemma mailbox_client_sel:
  "messages_list mailbox_client w = (Inr (if unread w = [] then None else Some (unread w)), w)"
  "batch_get mailbox_client ids w =
     (Inr (map (\<lambda>i. case find (\<lambda>m. ident m = i) (stored w) of
                        None \<Rightarrow> Inl HttpError
                      | Some m \<Rightarrow> Inr m) ids), w)"
  "messages_send mailbox_client r w = (Inr (), w\<lparr>outbox := outbox w @ [r]\<rparr>)"
  "batch_modify mailbox_client ids w = (Inr (), w\<lparr>unread := filter (\<lambda>i. i \<notin> set ids) (unread w)\<rparr>)"
  by (simp_all add: mailbox_client_def)

lemma parse_mixed: "parse_email_body py_lib c mixed_part i s = (Inr minutes_mime, s)"
  by (simp add: mixed_part_def note_part_def report_part_def split_plain split_pdf split_mixed
      text_part_def attachment_part_def attachment_bytes_def py_lib_sel minutes_mime_def
      decode_hello decode_pdf utf8_hello ascii_hello)

lemma headers_mixed:
  "headers mixed_part = Some [\<lparr>name = Some ''Subject'', header_value = Some ''Minutes''\<rparr>]"
  by (simp add: mixed_part_def)

lemma parse_broken: "parse_email_body py_lib c broken_part i s = (Inl BinasciiError, s)"
  by (simp add: broken_part_def split_plain text_part_def py_lib_sel decode_a ascii_a)


lemma plain_headers:
  "\<not> embedded_header ''boss@x.org''" "\<not> embedded_header ''team@x.org''"
  "\<not> embedded_header ''ann@x.org,bob@x.org''" "\<not> embedded_header ''m2''"
  "\<not> embedded_header ''Minutes''" "\<not> embedded_header ''m3''"
  by code_simp+

lemma injected_header: "embedded_header ''Hi\<newline>Bcc: eve@x.org''"
  by code_simp

lemma rendered:
  "serialize py_lib
     (build_message ''boss@x.org'' office_rule minutes_message (Some ''Minutes'') minutes_mime) =
   Inr (''from: boss@x.org\<newline>to: team@x.org\<newline>cc: ann@x.org,bob@x.org\<newline>'' @
        ''In-Reply-To: m2\<newline>References: m2\<newline>subject: Minutes\<newline>\<newline>'' @
        ''Content-Type: multipart/mixed\<newline>\<newline>'' @
        ''Content-Type: text/plain\<newline>\<newline>hello\<newline>'' @
        ''Content-Type: application/pdf\<newline>'' @
        ''Content-Disposition: attachment; filename=report.pdf\<newline>\<newline>PDF!\<newline>'')"
proof -
  have v: "header_values
      (build_message ''boss@x.org'' office_rule minutes_message (Some ''Minutes'') minutes_mime) =
      [''boss@x.org'', ''team@x.org'', ''ann@x.org,bob@x.org'', ''m2'', ''m2'', ''Minutes'']"
    by (simp add: header_values_def build_message_def office_rule_def minutes_message_def)
  show ?thesis
    by (simp add: py_lib_sel render_def v plain_headers)
      (simp add: build_message_def office_rule_def minutes_message_def minutes_mime_def
        render_header_def)
qed

lemma forward_minutes:
  "forward_email py_lib mailbox_client ''boss@x.org'' (Some office_rule) minutes_message s =
     (Inr (Some ''m2''),
      \<lparr>world = (world s)\<lparr>outbox := outbox (world s) @ [minutes_reply ''boss@x.org'' office_rule]\<rparr>,
       calls = calls s @ [(SendCall (minutes_reply ''boss@x.org'' office_rule), True)]\<rparr>)"
proof -
  have m: "payload minutes_message = Some mixed_part" "ident minutes_message = Some ''m2''"
    "threadId minutes_message = Some ''t2''"
    by (simp_all add: minutes_message_def)
  have s: "get_subject [\<lparr>name = Some ''Subject'', header_value = Some ''Minutes''\<rparr>] (Some []) =
      Some ''Minutes''"
    by simp
  obtain x where r: "serialize py_lib
      (build_message ''boss@x.org'' office_rule minutes_message (Some ''Minutes'') minutes_mime) =
      Inr x"
    using rendered by blast
  have e: "execute (SendCall (minutes_reply ''boss@x.org'' office_rule))
      (messages_send mailbox_client (minutes_reply ''boss@x.org'' office_rule)) s =
     (Inr (),
      \<lparr>world = (world s)\<lparr>outbox := outbox (world s) @ [minutes_reply ''boss@x.org'' office_rule]\<rparr>,
       calls = calls s @ [(SendCall (minutes_reply ''boss@x.org'' office_rule), True)]\<rparr>)"
    by (simp add: execute_def mailbox_client_sel)
  have mr: "minutes_reply ''boss@x.org'' office_rule =
      \<lparr>raw = urlsafe_b64encode py_lib x, reply_threadId = Some ''t2''\<rparr>"
    by (simp add: minutes_reply_def r)
  show ?thesis
    unfolding forward_email_def
    by (simp only: m headers_mixed parse_mixed option.case prod.case sum.case s r mr[symmetric] e)
qed

lemma forward_broken:
  "forward_email py_lib mailbox_client account el broken_message s = (Inl BinasciiError, s)"
proof -
  have m: "payload broken_message = Some broken_part" "headers broken_part = Some []"
    by (simp_all add: broken_message_def broken_part_def)
  show ?thesis
    by (simp add: forward_email_def m parse_broken)
qed

lemma idents: "ident broken_message = Some ''m1''" "ident minutes_message = Some ''m2''"
  by (simp_all add: broken_message_def minutes_message_def)

lemma broken_first:
  "apply_forwarding_rule py_lib mailbox_client ''boss@x.org'' (Some office_rule)
     (start office_mailbox) =
     (Inl BinasciiError,
      \<lparr>world = office_mailbox,
       calls = [(ListCall, True), (BatchGetCall [Some ''m1'', Some ''m2''], True)]\<rparr>)"
  by (simp add: apply_forwarding_rule_def cycle_body_def execute_def mailbox_client_sel start_def
      office_mailbox_def empty_mailbox_def forward_minutes forward_broken idents)

lemma broken_second:
  "apply_forwarding_rule py_lib mailbox_client ''boss@x.org'' (Some office_rule)
          (start (office_mailbox\<lparr>unread := [Some ''m2'', Some ''m1'']\<rparr>)) =
     (Inl BinasciiError,
      \<lparr>world = office_mailbox\<lparr>unread := [Some ''m2'', Some ''m1''],
                               outbox := [minutes_reply ''boss@x.org'' office_rule]\<rparr>,
       calls = [(ListCall, True), (BatchGetCall [Some ''m2'', Some ''m1''], True),
                (SendCall (minutes_reply ''boss@x.org'' office_rule), True)]\<rparr>)"
  by (simp add: apply_forwarding_rule_def cycle_body_def execute_def mailbox_client_sel start_def
      office_mailbox_def empty_mailbox_def forward_minutes forward_broken idents)

lemma tidy_cycle:
  "apply_forwarding_rule py_lib mailbox_client ''boss@x.org'' (Some office_rule)
          \<lparr>world = tidy_mailbox, calls = cs\<rparr> =
     (Inr (),
      \<lparr>world = tidy_mailbox\<lparr>unread := [], outbox := [minutes_reply ''boss@x.org'' office_rule]\<rparr>,
       calls = cs @ [(ListCall, True), (BatchGetCall [Some ''m2''], True),
                (SendCall (minutes_reply ''boss@x.org'' office_rule), True),
                (BatchModifyCall [Some ''m2''], True)]\<rparr>)"
  by (simp add: apply_forwarding_rule_def cycle_body_def execute_def mailbox_client_sel
      tidy_mailbox_def empty_mailbox_def forward_minutes idents)

section \<open>Properties of a cycle\<close>

text \<open>
  C1, on the code. A mailbox holds two unread messages; the text payload of \<open>m1\<close> is
  \<open>a\<close>, which is not base64. Its reconstruction raises \<open>binascii.Error\<close>, which is not
  a \<open>RuntimeError\<close> and not an \<open>HttpError\<close>: the exception leaves the loop and the
  function. With \<open>m1\<close> fetched first, \<open>m2\<close> is never processed. With \<open>m2\<close> fetched
  first, \<open>m2\<close> is sent and then never acknowledged: no batch modify is executed and \<open>m2\<close>
  stays unread.
\<close>

theorem reconstruction_failure_leaves_cycle:
  "apply_forwarding_rule py_lib mailbox_client ''boss@x.org'' (Some office_rule)
     (start office_mailbox) =
     (Inl BinasciiError,
      \<lparr>world = office_mailbox,
       calls = [(ListCall, True), (BatchGetCall [Some ''m1'', Some ''m2''], True)]\<rparr>) \<and>
   apply_forwarding_rule py_lib mailbox_client ''boss@x.org'' (Some office_rule)
     (start (office_mailbox\<lparr>unread := [Some ''m2'', Some ''m1'']\<rparr>)) =
     (Inl BinasciiError,
      \<lparr>world = office_mailbox\<lparr>unread := [Some ''m2'', Some ''m1''],
                               outbox := [minutes_reply ''boss@x.org'' office_rule]\<rparr>,
       calls = [(ListCall, True), (BatchGetCall [Some ''m2'', Some ''m1''], True),
                (SendCall (minutes_reply ''boss@x.org'' office_rule), True)]\<rparr>) \<and>
   isinstance_ValueError BinasciiError \<and>
   \<not> isinstance_RuntimeError BinasciiError \<and>
   \<not> isinstance_HttpError BinasciiError"
  by (simp add: broken_first broken_second)

text \<open>
  C5. In the requests of one cycle, a batch modify is the last request, no request before
  it is a batch modify, and for every id in it a send has returned, before it, of the
  message built for a fetched message with that id.
\<close>

theorem acknowledge_after_sends:
  assumes "apply_forwarding_rule l c account el s = (r, s')"
  shows "\<exists>new. calls s' = calls s @ new \<and>
     (\<forall>ids ok. (BatchModifyCall ids, ok) \<in> set new \<longrightarrow>
        (\<exists>before. new = before @ [(BatchModifyCall ids, ok)] \<and>
           list_all (\<lambda>x. \<not> is_batch_modify (fst x)) before \<and>
           (\<forall>i \<in> set ids. replied l account el i before)))"
proof -
  obtain r0 s0 where body: "cycle_body l c account el s = (r0, s0)"
    by (cases "cycle_body l c account el s")
  with assms have "s' = s0"
    by (auto simp: apply_forwarding_rule_def split: sum.splits if_splits)
  with cycle_body_calls[OF body] show ?thesis by simp
qed

theorem acknowledge_after_sends_witness:
  "apply_forwarding_rule py_lib mailbox_client ''boss@x.org'' (Some office_rule)
     \<lparr>world = tidy_mailbox, calls = []\<rparr> =
     (Inr (),
      \<lparr>world = tidy_mailbox\<lparr>unread := [], outbox := [minutes_reply ''boss@x.org'' office_rule]\<rparr>,
       calls = [(ListCall, True), (BatchGetCall [Some ''m2''], True),
                (SendCall (minutes_reply ''boss@x.org'' office_rule), True),
                (BatchModifyCall [Some ''m2''], True)]\<rparr>) \<and>
   list_all (\<lambda>x. \<not> is_batch_modify (fst x))
     [(ListCall, True), (BatchGetCall [Some ''m2''], True),
      (SendCall (minutes_reply ''boss@x.org'' office_rule), True)] \<and>
   replied py_lib ''boss@x.org'' (Some office_rule) (Some ''m2'')
     [(ListCall, True), (BatchGetCall [Some ''m2''], True),
      (SendCall (minutes_reply ''boss@x.org'' office_rule), True)]"
proof -
  let ?before = "[(ListCall, True), (BatchGetCall [Some ''m2''], True),
      (SendCall (minutes_reply ''boss@x.org'' office_rule), True)]"
  let ?final = "\<lparr>world = tidy_mailbox\<lparr>unread := [],
      outbox := [minutes_reply ''boss@x.org'' office_rule]\<rparr>,
      calls = ?before @ [(BatchModifyCall [Some ''m2''], True)]\<rparr>"
  have run: "apply_forwarding_rule py_lib mailbox_client ''boss@x.org'' (Some office_rule)
      \<lparr>world = tidy_mailbox, calls = []\<rparr> = (Inr (), ?final)"
    using tidy_cycle[of "[]"] by simp
  from acknowledge_after_sends[OF run]
  obtain new where new: "calls ?final = [] @ new"
    and last: "\<forall>ids ok. (BatchModifyCall ids, ok) \<in> set new \<longrightarrow>
        (\<exists>before. new = before @ [(BatchModifyCall ids, ok)] \<and>
           list_all (\<lambda>x. \<not> is_batch_modify (fst x)) before \<and>
           (\<forall>i \<in> set ids. replied py_lib ''boss@x.org'' (Some office_rule) i before))"
    by auto
  from new have eq: "new = ?before @ [(BatchModifyCall [Some ''m2''], True)]" by simp
  then have "(BatchModifyCall [Some ''m2''], True) \<in> set new" by simp
  with last obtain before where b: "new = before @ [(BatchModifyCall [Some ''m2''], True)]"
    "list_all (\<lambda>x. \<not> is_batch_modify (fst x)) before"
    "\<forall>i \<in> set [Some ''m2'']. replied py_lib ''boss@x.org'' (Some office_rule) i before"
    by blast
  from b(1) eq have "before = ?before" by simp
  with b(2,3) run show ?thesis by simp
qed

lemma cycle_starts_with_listing:
  assumes "apply_forwarding_rule l c account el s = (r, s')"
  shows "\<exists>ok more. calls s' = calls s @ (ListCall, ok) # more"
proof -
  obtain r1 s1 where list: "execute ListCall (messages_list c) s = (r1, s1)"
    by (cases "execute ListCall (messages_list c) s")
  from execute_calls[OF list] have c1: "calls s1 = calls s @ [(ListCall, \<not> isl r1)]" .
  obtain r0 s0 where body: "cycle_body l c account el s = (r0, s0)"
    by (cases "cycle_body l c account el s")
  with assms have s0: "s' = s0"
    by (auto simp: apply_forwarding_rule_def split: sum.splits if_splits)
  have "\<exists>more. calls s0 = calls s1 @ more"
  proof (cases r1)
    case (Inl e)
    with body list have "s0 = s1" by (simp add: cycle_body_def)
    then show ?thesis by simp
  next
    case (Inr result)
    define ids where "ids = (case result of None \<Rightarrow> [] | Some ms \<Rightarrow> ms)"
    obtain r2 s2 where get: "execute (BatchGetCall ids) (batch_get c ids) s1 = (r2, s2)"
      by (cases "execute (BatchGetCall ids) (batch_get c ids) s1")
    from execute_calls[OF get] have c2: "calls s2 = calls s1 @ [(BatchGetCall ids, \<not> isl r2)]" .
    show ?thesis
    proof (cases r2)
      case (Inl e)
      with body list Inr get have "s0 = s2" by (simp add: cycle_body_def ids_def)
      with c2 show ?thesis by simp
    next
      case get_ok: (Inr unread_emails)
      obtain r3 s3 where loop: "process_unread_emails l c account el unread_emails [] s2 = (r3, s3)"
        by (cases "process_unread_emails l c account el unread_emails [] s2")
      from process_unread_emails_calls[OF loop] obtain new3
        where n3: "calls s3 = calls s2 @ new3" by blast
      show ?thesis
      proof (cases r3)
        case (Inl e)
        with body list Inr get get_ok loop have "s0 = s3" by (simp add: cycle_body_def ids_def)
        with c2 n3 show ?thesis by simp
      next
        case loop_ok: (Inr pids)
        obtain r4 s4 where modify: "execute (BatchModifyCall pids) (batch_modify c pids) s3 = (r4, s4)"
          by (cases "execute (BatchModifyCall pids) (batch_modify c pids) s3")
        from execute_calls[OF modify] have c4: "calls s4 = calls s3 @ [(BatchModifyCall pids, \<not> isl r4)]" .
        from body list Inr get get_ok loop loop_ok modify have "s0 = s4"
          by (simp add: cycle_body_def ids_def)
        with c2 n3 c4 show ?thesis by simp
      qed
    qed
  qed
  with c1 s0 show ?thesis by auto
qed

lemma run_clients_append:
  "run_clients l els (pre @ post) s =
     (case run_clients l els pre s of
        (Inl e, s') \<Rightarrow> (Inl e, s')
      | (Inr u, s') \<Rightarrow> run_clients l els post s')"
  by (induction pre arbitrary: s) (auto split: prod.splits sum.splits)

lemma cycle_body_fatal:
  assumes "execute ListCall (messages_list c) s = (Inl e, s')
     \<or> (\<exists>result s1.
          execute ListCall (messages_list c) s = (Inr result, s1) \<and>
          execute (BatchGetCall (case result of None \<Rightarrow> [] | Some ms \<Rightarrow> ms))
            (batch_get c (case result of None \<Rightarrow> [] | Some ms \<Rightarrow> ms)) s1 = (Inl e, s'))
     \<or> (\<exists>result s1 unread_emails s2 processed_ids s3.
          execute ListCall (messages_list c) s = (Inr result, s1) \<and>
          execute (BatchGetCall (case result of None \<Rightarrow> [] | Some ms \<Rightarrow> ms))
            (batch_get c (case result of None \<Rightarrow> [] | Some ms \<Rightarrow> ms)) s1 =
            (Inr unread_emails, s2) \<and>
          process_unread_emails l c account el unread_emails [] s2 = (Inr processed_ids, s3) \<and>
          execute (BatchModifyCall processed_ids) (batch_modify c processed_ids) s3 = (Inl e, s'))"
  shows "cycle_body l c account el s = (Inl e, s')"
  using assms by (auto simp: cycle_body_def)

text \<open>
  C7, as the code has it. Let the listing, the execution of the batch of fetches or the
  execution of the batch of modifications of account \<open>X\<close> raise \<open>e\<close>. If \<open>e\<close> is an
  \<open>HttpError\<close>, \<open>apply_forwarding_rule\<close> returns in the state in which \<open>e\<close> was raised, the
  clients after \<open>X\<close> are run from that state, and every later account \<open>Y\<close> whose
  predecessors return has its cycle run, starting with its listing. If \<open>e\<close> is of any
  other class, it leaves \<open>apply_forwarding_rule\<close> and the loop over the clients, and no
  later account is run.
\<close>

theorem cycle_isolation:
  assumes "execute ListCall (messages_list cX) s = (Inl e, s')
     \<or> (\<exists>result s1.
          execute ListCall (messages_list cX) s = (Inr result, s1) \<and>
          execute (BatchGetCall (case result of None \<Rightarrow> [] | Some ms \<Rightarrow> ms))
            (batch_get cX (case result of None \<Rightarrow> [] | Some ms \<Rightarrow> ms)) s1 = (Inl e, s'))
     \<or> (\<exists>result s1 unread_emails s2 processed_ids s3.
          execute ListCall (messages_list cX) s = (Inr result, s1) \<and>
          execute (BatchGetCall (case result of None \<Rightarrow> [] | Some ms \<Rightarrow> ms))
            (batch_get cX (case result of None \<Rightarrow> [] | Some ms \<Rightarrow> ms)) s1 =
            (Inr unread_emails, s2) \<and>
          process_unread_emails l cX X (map_of els X) unread_emails [] s2 =
            (Inr processed_ids, s3) \<and>
          execute (BatchModifyCall processed_ids) (batch_modify cX processed_ids) s3 =
            (Inl e, s'))"
  shows "(isinstance_HttpError e \<longrightarrow>
            apply_forwarding_rule l cX X (map_of els X) s = (Inr (), s') \<and>
            run_clients l els ((X, cX) # rest) s = run_clients l els rest s' \<and>
            (\<forall>pre Y cY post t.
               rest = pre @ (Y, cY) # post \<and> run_clients l els pre s' = (Inr (), t) \<longrightarrow>
               run_clients l els ((X, cX) # rest) s =
                 (case apply_forwarding_rule l cY Y (map_of els Y) t of
                    (Inl e', t') \<Rightarrow> (Inl e', t')
                  | (Inr u, t') \<Rightarrow> run_clients l els post t') \<and>
               (\<exists>ok more. calls (snd (apply_forwarding_rule l cY Y (map_of els Y) t)) =
                   calls t @ (ListCall, ok) # more))) \<and>
         (\<not> isinstance_HttpError e \<longrightarrow>
            apply_forwarding_rule l cX X (map_of els X) s = (Inl e, s') \<and>
            run_clients l els ((X, cX) # rest) s = (Inl e, s'))"
proof -
  have body: "cycle_body l cX X (map_of els X) s = (Inl e, s')"
    using assms by (rule cycle_body_fatal)
  show ?thesis
  proof (intro conjI impI allI)
    assume h: "isinstance_HttpError e"
    with body show ret: "apply_forwarding_rule l cX X (map_of els X) s = (Inr (), s')"
      by (simp add: apply_forwarding_rule_def)
    then show go: "run_clients l els ((X, cX) # rest) s = run_clients l els rest s'"
      by simp
    fix pre Y cY post t
    assume a: "rest = pre @ (Y, cY) # post \<and> run_clients l els pre s' = (Inr (), t)"
    then have "run_clients l els rest s' = run_clients l els ((Y, cY) # post) t"
      by (simp add: run_clients_append)
    with go show "run_clients l els ((X, cX) # rest) s =
                 (case apply_forwarding_rule l cY Y (map_of els Y) t of
                    (Inl e', t') \<Rightarrow> (Inl e', t')
                  | (Inr u, t') \<Rightarrow> run_clients l els post t')"
      by simp
    show "\<exists>ok more. calls (snd (apply_forwarding_rule l cY Y (map_of els Y) t)) =
                   calls t @ (ListCall, ok) # more"
      using cycle_starts_with_listing[of l cY Y "map_of els Y" t] by (metis prod.collapse)
  next
    assume h: "\<not> isinstance_HttpError e"
    with body show ret: "apply_forwarding_rule l cX X (map_of els X) s = (Inl e, s')"
      by (simp add: apply_forwarding_rule_def)
    then show "run_clients l els ((X, cX) # rest) s = (Inl e, s')"
      by simp
  qed
qed

theorem cycle_isolation_witness:
  "execute ListCall (messages_list unreachable_client) (start tidy_mailbox) =
     (Inl HttpError, \<lparr>world = tidy_mailbox, calls = [(ListCall, False)]\<rparr>) \<and>
   isinstance_HttpError HttpError \<and>
   apply_forwarding_rule py_lib unreachable_client ''ghost@x.org''
     (map_of [(''ghost@x.org'', office_rule), (''boss@x.org'', office_rule)] ''ghost@x.org'')
     (start tidy_mailbox) = (Inr (), \<lparr>world = tidy_mailbox, calls = [(ListCall, False)]\<rparr>) \<and>
   run_clients py_lib [(''ghost@x.org'', office_rule), (''boss@x.org'', office_rule)]
     [(''ghost@x.org'', unreachable_client), (''boss@x.org'', mailbox_client)]
     (start tidy_mailbox) =
     (Inr (),
      \<lparr>world = tidy_mailbox\<lparr>unread := [], outbox := [minutes_reply ''boss@x.org'' office_rule]\<rparr>,
       calls = [(ListCall, False), (ListCall, True), (BatchGetCall [Some ''m2''], True),
                (SendCall (minutes_reply ''boss@x.org'' office_rule), True),
                (BatchModifyCall [Some ''m2''], True)]\<rparr>) \<and>
   execute ListCall (messages_list stalled_client) (start tidy_mailbox) =
     (Inl OtherException, \<lparr>world = tidy_mailbox, calls = [(ListCall, False)]\<rparr>) \<and>
   \<not> isinstance_HttpError OtherException \<and>
   run_clients py_lib [(''ghost@x.org'', office_rule), (''boss@x.org'', office_rule)]
     [(''ghost@x.org'', stalled_client), (''boss@x.org'', mailbox_client)]
     (start tidy_mailbox) =
     (Inl OtherException, \<lparr>world = tidy_mailbox, calls = [(ListCall, False)]\<rparr>)"
proof -
  let ?els = "[(''ghost@x.org'', office_rule), (''boss@x.org'', office_rule)]"
  let ?s1 = "\<lparr>world = tidy_mailbox, calls = [(ListCall, False)]\<rparr>"
  have l1: "execute ListCall (messages_list unreachable_client) (start tidy_mailbox) =
      (Inl HttpError, ?s1)"
    by (simp add: execute_def unreachable_client_def start_def)
  have l2: "execute ListCall (messages_list stalled_client) (start tidy_mailbox) =
      (Inl OtherException, ?s1)"
    by (simp add: execute_def stalled_client_def start_def)
  have http: "isinstance_HttpError HttpError" "\<not> isinstance_HttpError OtherException"
    by simp_all
  have rule: "map_of ?els ''boss@x.org'' = Some office_rule" by simp
  have pre: "[(''boss@x.org'', mailbox_client)] = [] @ (''boss@x.org'', mailbox_client) # [] \<and>
      run_clients py_lib ?els [] ?s1 = (Inr (), ?s1)"
    by simp
  have boss: "apply_forwarding_rule py_lib mailbox_client ''boss@x.org''
      (map_of ?els ''boss@x.org'') ?s1 =
      (Inr (),
       \<lparr>world = tidy_mailbox\<lparr>unread := [], outbox := [minutes_reply ''boss@x.org'' office_rule]\<rparr>,
        calls = [(ListCall, False), (ListCall, True), (BatchGetCall [Some ''m2''], True),
                (SendCall (minutes_reply ''boss@x.org'' office_rule), True),
                (BatchModifyCall [Some ''m2''], True)]\<rparr>)"
    by (simp only: rule tidy_cycle append.simps)
  note i1 = cycle_isolation[of unreachable_client "start tidy_mailbox" HttpError ?s1 py_lib
      "''ghost@x.org''" ?els "[(''boss@x.org'', mailbox_client)]", OF disjI1, OF l1]
  note i2 = cycle_isolation[of stalled_client "start tidy_mailbox" OtherException ?s1 py_lib
      "''ghost@x.org''" ?els "[(''boss@x.org'', mailbox_client)]", OF disjI1, OF l2]
  from i1 http(1) have ret: "apply_forwarding_rule py_lib unreachable_client ''ghost@x.org''
      (map_of ?els ''ghost@x.org'') (start tidy_mailbox) = (Inr (), ?s1)"
    by blast
  from i1 http(1) pre have "run_clients py_lib ?els
      ((''ghost@x.org'', unreachable_client) # [(''boss@x.org'', mailbox_client)])
      (start tidy_mailbox) =
      (case apply_forwarding_rule py_lib mailbox_client ''boss@x.org''
              (map_of ?els ''boss@x.org'') ?s1 of
         (Inl e', t') \<Rightarrow> (Inl e', t')
       | (Inr u, t') \<Rightarrow> run_clients py_lib ?els [] t')"
    by blast
  then have run: "run_clients py_lib ?els
      [(''ghost@x.org'', unreachable_client), (''boss@x.org'', mailbox_client)]
      (start tidy_mailbox) =
      (Inr (),
       \<lparr>world = tidy_mailbox\<lparr>unread := [], outbox := [minutes_reply ''boss@x.org'' office_rule]\<rparr>,
        calls = [(ListCall, False), (ListCall, True), (BatchGetCall [Some ''m2''], True),
                (SendCall (minutes_reply ''boss@x.org'' office_rule), True),
                (BatchModifyCall [Some ''m2''], True)]\<rparr>)"
    by (simp only: boss prod.case sum.case run_clients.simps)
  from i2 http(2) have stop: "run_clients py_lib ?els
      ((''ghost@x.org'', stalled_client) # [(''boss@x.org'', mailbox_client)])
      (start tidy_mailbox) = (Inl OtherException, ?s1)"
    by blast
  show ?thesis
    using l1 l2 http ret run stop by simp
qed

text \<open>
  C7, as the claim states it, fails: the listing of the first account fails in the
  transport with an exception that is not an \<open>HttpError\<close>; the exception ends the tick after
  that one request, and the cycle of the second account is not run.
\<close>

theorem cycle_isolation_counterexample:
  "run_clients py_lib [(''ghost@x.org'', office_rule), (''boss@x.org'', office_rule)]
     [(''ghost@x.org'', stalled_client), (''boss@x.org'', mailbox_client)]
     (start tidy_mailbox) =
   (Inl OtherException, \<lparr>world = tidy_mailbox, calls = [(ListCall, False)]\<rparr>)"
  by (simp add: apply_forwarding_rule_def cycle_body_def execute_def stalled_client_def start_def)

lemma get_subject_injected:
  "get_subject [\<lparr>name = Some ''Subject'', header_value = Some ''Hi\<newline>Bcc: eve@x.org''\<rparr>] (Some []) =
     Some ''Hi\<newline>Bcc: eve@x.org''"
  by simp

lemma parse_injected:
  "parse_email_body py_lib c injected_part i s = (Inr (MIMEText ''hello'' ''plain''), s)"
  by (simp add: injected_part_def split_plain text_part_def py_lib_sel decode_hello utf8_hello
      ascii_hello)

lemma render_injected:
  "serialize py_lib
     (build_message ''boss@x.org'' office_rule injected_message
        (Some ''Hi\<newline>Bcc: eve@x.org'') (MIMEText ''hello'' ''plain'')) = Inl HeaderParseError"
proof -
  have "list_ex embedded_header (header_values
     (build_message ''boss@x.org'' office_rule injected_message
        (Some ''Hi\<newline>Bcc: eve@x.org'') (MIMEText ''hello'' ''plain'')))"
    by (simp add: header_values_def build_message_def injected_header del: embedded_header.simps)
  then show ?thesis by (simp add: py_lib_sel render_def)
qed

text \<open>
  C8, as the code has it. For a fetched message whose body is reconstructed, the message
  is built with \<open>from\<close> the account, \<open>to\<close> the \<open>to\<close> of the rule, \<open>cc\<close> the \<open>cc\<close>
  addresses of the rule joined with commas, In-Reply-To and References the id of the
  original message, the subject extracted from the headers (the empty string when no
  header is named Subject, the value of the last such header otherwise) and the
  reconstructed body attached. If the library serialises the message, what is sent is the
  URL-safe base64 encoding of the serialisation with the thread id of the original
  message, and the id is returned if the send returns. If the serialisation raises, the
  exception is raised in the state after the reconstruction: nothing is sent.
\<close>

theorem outbound_message:
  assumes "payload m = Some pl" and "headers pl = Some hs"
    and "parse_email_body l c pl (ident m) s = (Inr p, s1)"
  shows "build_message account rule m (get_subject hs (Some [])) p =
           \<lparr>msg_from = account, msg_to = rule_to rule, msg_cc = py_join '','' (rule_cc rule),
            in_reply_to = ident m, references = ident m,
            msg_subject = get_subject hs (Some []), attached = [p]\<rparr> \<and>
         ((\<forall>h \<in> set hs. name h \<noteq> Some ''Subject'') \<longrightarrow> get_subject hs (Some []) = Some []) \<and>
         (\<forall>before h after. hs = before @ h # after \<and> name h = Some ''Subject'' \<and>
             (\<forall>x \<in> set after. name x \<noteq> Some ''Subject'') \<longrightarrow>
             get_subject hs (Some []) = header_value h) \<and>
         (\<forall>serialized.
            serialize l (build_message account rule m (get_subject hs (Some [])) p) =
              Inr serialized \<longrightarrow>
            forward_email l c account (Some rule) m s =
              (case execute
                      (SendCall \<lparr>raw = urlsafe_b64encode l serialized,
                                 reply_threadId = threadId m\<rparr>)
                      (messages_send c
                         \<lparr>raw = urlsafe_b64encode l serialized, reply_threadId = threadId m\<rparr>)
                      s1 of
                 (Inl e, s2) \<Rightarrow> (Inl e, s2)
               | (Inr u, s2) \<Rightarrow> (Inr (ident m), s2))) \<and>
         (\<forall>e. serialize l (build_message account rule m (get_subject hs (Some [])) p) = Inl e \<longrightarrow>
            forward_email l c account (Some rule) m s = (Inl e, s1))"
proof (intro conjI allI impI)
  show "build_message account rule m (get_subject hs (Some [])) p =
           \<lparr>msg_from = account, msg_to = rule_to rule, msg_cc = py_join '','' (rule_cc rule),
            in_reply_to = ident m, references = ident m,
            msg_subject = get_subject hs (Some []), attached = [p]\<rparr>"
    by (simp add: build_message_def)
next
  assume "\<forall>h \<in> set hs. name h \<noteq> Some ''Subject''"
  then show "get_subject hs (Some []) = Some []"
    by (simp add: get_subject_absent)
next
  fix before h after
  assume "hs = before @ h # after \<and> name h = Some ''Subject'' \<and>
             (\<forall>x \<in> set after. name x \<noteq> Some ''Subject'')"
  then show "get_subject hs (Some []) = header_value h"
    by (auto simp: get_subject_last)
next
  fix serialized
  assume "serialize l (build_message account rule m (get_subject hs (Some [])) p) = Inr serialized"
  then show "forward_email l c account (Some rule) m s =
              (case execute
                      (SendCall \<lparr>raw = urlsafe_b64encode l serialized,
                                 reply_threadId = threadId m\<rparr>)
                      (messages_send c
                         \<lparr>raw = urlsafe_b64encode l serialized, reply_threadId = threadId m\<rparr>)
                      s1 of
                 (Inl e, s2) \<Rightarrow> (Inl e, s2)
               | (Inr u, s2) \<Rightarrow> (Inr (ident m), s2))"
    using assms by (simp add: forward_email_def)
next
  fix e
  assume "serialize l (build_message account rule m (get_subject hs (Some [])) p) = Inl e"
  then show "forward_email l c account (Some rule) m s = (Inl e, s1)"
    using assms by (simp add: forward_email_def)
qed

theorem outbound_message_witness:
  "payload minutes_message = Some mixed_part \<and>
   headers mixed_part = Some [\<lparr>name = Some ''Subject'', header_value = Some ''Minutes''\<rparr>] \<and>
   parse_email_body py_lib mailbox_client mixed_part (ident minutes_message) (start tidy_mailbox) =
     (Inr minutes_mime, start tidy_mailbox) \<and>
   serialize py_lib
     (build_message ''boss@x.org'' office_rule minutes_message
        (get_subject [\<lparr>name = Some ''Subject'', header_value = Some ''Minutes''\<rparr>] (Some []))
        minutes_mime) =
     Inr (''from: boss@x.org\<newline>to: team@x.org\<newline>cc: ann@x.org,bob@x.org\<newline>'' @
        ''In-Reply-To: m2\<newline>References: m2\<newline>subject: Minutes\<newline>\<newline>'' @
        ''Content-Type: multipart/mixed\<newline>\<newline>'' @
        ''Content-Type: text/plain\<newline>\<newline>hello\<newline>'' @
        ''Content-Type: application/pdf\<newline>'' @
        ''Content-Disposition: attachment; filename=report.pdf\<newline>\<newline>PDF!\<newline>'') \<and>
   forward_email py_lib mailbox_client ''boss@x.org'' (Some office_rule) minutes_message
     (start tidy_mailbox) =
     (Inr (Some ''m2''),
      \<lparr>world = tidy_mailbox\<lparr>outbox :=
         [\<lparr>raw = urlsafe_b64encode py_lib
             (''from: boss@x.org\<newline>to: team@x.org\<newline>cc: ann@x.org,bob@x.org\<newline>'' @
              ''In-Reply-To: m2\<newline>References: m2\<newline>subject: Minutes\<newline>\<newline>'' @
              ''Content-Type: multipart/mixed\<newline>\<newline>'' @
              ''Content-Type: text/plain\<newline>\<newline>hello\<newline>'' @
              ''Content-Type: application/pdf\<newline>'' @
              ''Content-Disposition: attachment; filename=report.pdf\<newline>\<newline>PDF!\<newline>''),
           reply_threadId = Some ''t2''\<rparr>]\<rparr>,
       calls =
         [(SendCall \<lparr>raw = urlsafe_b64encode py_lib
             (''from: boss@x.org\<newline>to: team@x.org\<newline>cc: ann@x.org,bob@x.org\<newline>'' @
              ''In-Reply-To: m2\<newline>References: m2\<newline>subject: Minutes\<newline>\<newline>'' @
              ''Content-Type: multipart/mixed\<newline>\<newline>'' @
              ''Content-Type: text/plain\<newline>\<newline>hello\<newline>'' @
              ''Content-Type: application/pdf\<newline>'' @
              ''Content-Disposition: attachment; filename=report.pdf\<newline>\<newline>PDF!\<newline>''),
           reply_threadId = Some ''t2''\<rparr>, True)]\<rparr>) \<and>
   build_message ''boss@x.org'' office_rule minutes_message
        (get_subject [\<lparr>name = Some ''Subject'', header_value = Some ''Minutes''\<rparr>] (Some []))
        minutes_mime =
     \<lparr>msg_from = ''boss@x.org'', msg_to = ''team@x.org'', msg_cc = ''ann@x.org,bob@x.org'',
      in_reply_to = Some ''m2'', references = Some ''m2'', msg_subject = Some ''Minutes'',
      attached = [minutes_mime]\<rparr> \<and>
   payload injected_message = Some injected_part \<and>
   headers injected_part =
     Some [\<lparr>name = Some ''Subject'', header_value = Some ''Hi\<newline>Bcc: eve@x.org''\<rparr>] \<and>
   parse_email_body py_lib mailbox_client injected_part (ident injected_message)
     (start empty_mailbox) = (Inr (MIMEText ''hello'' ''plain''), start empty_mailbox) \<and>
   serialize py_lib
     (build_message ''boss@x.org'' office_rule injected_message
        (get_subject [\<lparr>name = Some ''Subject'', header_value = Some ''Hi\<newline>Bcc: eve@x.org''\<rparr>]
           (Some []))
        (MIMEText ''hello'' ''plain'')) = Inl HeaderParseError \<and>
   forward_email py_lib mailbox_client ''boss@x.org'' (Some office_rule) injected_message
     (start empty_mailbox) = (Inl HeaderParseError, start empty_mailbox)"
proof -
  let ?hs = "[\<lparr>name = Some ''Subject'', header_value = Some ''Minutes''\<rparr>]"
  let ?hi = "[\<lparr>name = Some ''Subject'', header_value = Some ''Hi\<newline>Bcc: eve@x.org''\<rparr>]"
  let ?lit = "''from: boss@x.org\<newline>to: team@x.org\<newline>cc: ann@x.org,bob@x.org\<newline>'' @
        ''In-Reply-To: m2\<newline>References: m2\<newline>subject: Minutes\<newline>\<newline>'' @
        ''Content-Type: multipart/mixed\<newline>\<newline>'' @
        ''Content-Type: text/plain\<newline>\<newline>hello\<newline>'' @
        ''Content-Type: application/pdf\<newline>'' @
        ''Content-Disposition: attachment; filename=report.pdf\<newline>\<newline>PDF!\<newline>''"
  have a1: "payload minutes_message = Some mixed_part"
    by (simp add: minutes_message_def)
  have a2: "headers mixed_part = Some ?hs"
    by (rule headers_mixed)
  have a3: "parse_email_body py_lib mailbox_client mixed_part (ident minutes_message)
      (start tidy_mailbox) = (Inr minutes_mime, start tidy_mailbox)"
    by (rule parse_mixed)
  have subj: "get_subject ?hs (Some []) = Some ''Minutes''"
    by simp
  have a4: "serialize py_lib
      (build_message ''boss@x.org'' office_rule minutes_message (get_subject ?hs (Some []))
         minutes_mime) = Inr ?lit"
    unfolding subj by (rule rendered)
  have send: "execute (SendCall \<lparr>raw = urlsafe_b64encode py_lib ?lit, reply_threadId = Some ''t2''\<rparr>)
      (messages_send mailbox_client \<lparr>raw = urlsafe_b64encode py_lib ?lit, reply_threadId = Some ''t2''\<rparr>)
      (start tidy_mailbox) =
      (Inr (), \<lparr>world = tidy_mailbox\<lparr>outbox :=
         [\<lparr>raw = urlsafe_b64encode py_lib ?lit, reply_threadId = Some ''t2''\<rparr>]\<rparr>,
       calls = [(SendCall \<lparr>raw = urlsafe_b64encode py_lib ?lit, reply_threadId = Some ''t2''\<rparr>, True)]\<rparr>)"
    by (simp add: execute_def mailbox_client_sel start_def tidy_mailbox_def empty_mailbox_def)
  have fields: "ident minutes_message = Some ''m2''" "threadId minutes_message = Some ''t2''"
    "rule_to office_rule = ''team@x.org''"
    "py_join '','' (rule_cc office_rule) = ''ann@x.org,bob@x.org''"
    by (simp_all add: minutes_message_def office_rule_def)
  have b1: "payload injected_message = Some injected_part"
    by (simp add: injected_message_def)
  have b2: "headers injected_part = Some ?hi"
    by (simp add: injected_part_def)
  have b3: "parse_email_body py_lib mailbox_client injected_part (ident injected_message)
      (start empty_mailbox) = (Inr (MIMEText ''hello'' ''plain''), start empty_mailbox)"
    by (rule parse_injected)
  have b4: "serialize py_lib
      (build_message ''boss@x.org'' office_rule injected_message (get_subject ?hi (Some []))
         (MIMEText ''hello'' ''plain'')) = Inl HeaderParseError"
    unfolding get_subject_injected by (rule render_injected)
  note i1 = outbound_message[OF a1 a2 a3, of "''boss@x.org''" office_rule]
  note i2 = outbound_message[OF b1 b2 b3, of "''boss@x.org''" office_rule]
  from i1 a4 have f1: "forward_email py_lib mailbox_client ''boss@x.org'' (Some office_rule)
      minutes_message (start tidy_mailbox) =
      (case execute
              (SendCall \<lparr>raw = urlsafe_b64encode py_lib ?lit,
                         reply_threadId = threadId minutes_message\<rparr>)
              (messages_send mailbox_client
                 \<lparr>raw = urlsafe_b64encode py_lib ?lit, reply_threadId = threadId minutes_message\<rparr>)
              (start tidy_mailbox) of
         (Inl e, s2) \<Rightarrow> (Inl e, s2)
       | (Inr u, s2) \<Rightarrow> (Inr (ident minutes_message), s2))"
    by blast
  from i1 have f2: "build_message ''boss@x.org'' office_rule minutes_message
      (get_subject ?hs (Some [])) minutes_mime =
      \<lparr>msg_from = ''boss@x.org'', msg_to = rule_to office_rule,
       msg_cc = py_join '','' (rule_cc office_rule),
       in_reply_to = ident minutes_message, references = ident minutes_message,
       msg_subject = get_subject ?hs (Some []), attached = [minutes_mime]\<rparr>"
    by blast
  from i2 b4 have f3: "forward_email py_lib mailbox_client ''boss@x.org'' (Some office_rule)
      injected_message (start empty_mailbox) = (Inl HeaderParseError, start empty_mailbox)"
    by blast
  show ?thesis
    using a1 a2 a3 a4 b1 b2 b3 b4 f1 f2 f3
    by (simp only: fields send subj prod.case sum.case simp_thms)
qed

text \<open>
  C8, as the claim states it, fails: a fetched message whose body is reconstructed and
  whose Subject has an embedded header is not sent, because the serialisation of the
  built message raises \<open>HeaderParseError\<close>.
\<close>

theorem outbound_message_counterexample:
  "parse_email_body py_lib mailbox_client injected_part (ident injected_message)
     (start empty_mailbox) = (Inr (MIMEText ''hello'' ''plain''), start empty_mailbox) \<and>
   forward_email py_lib mailbox_client ''boss@x.org'' (Some office_rule) injected_message
     (start empty_mailbox) = (Inl HeaderParseError, start empty_mailbox)"
proof -
  have m: "payload injected_message = Some injected_part"
    "headers injected_part =
       Some [\<lparr>name = Some ''Subject'', header_value = Some ''Hi\<newline>Bcc: eve@x.org''\<rparr>]"
    by (simp_all add: injected_message_def injected_part_def)
  show ?thesis
    unfolding forward_email_def
    by (simp only: m parse_injected get_subject_injected render_injected option.case prod.case
        sum.case simp_thms)
qed

section \<open>Properties of the scheduler\<close>

lemma tick_not_stopped: "tick clk l els clients s \<noteq> Stopped s'"
  by (simp add: tick_def split: prod.splits sum.splits)

lemma main_loop_tick:
  assumes "\<not> (hour dtime = 23 \<and> minute dtime \<ge> 55)"
  shows "main_loop (Suc fuel) clk l els clients (Running dtime s) =
     map_option (\<lambda>(ticks, final). (Suc ticks, final))
       (main_loop fuel clk l els clients (tick clk l els clients s))"
proof (cases "tick clk l els clients s")
  case (Stopped s')
  then show ?thesis using tick_not_stopped by blast
qed (use assms in simp_all)

lemma idle_cycle:
  "apply_forwarding_rule py_lib mailbox_client account el
     \<lparr>world = empty_mailbox\<lparr>seconds := t\<rparr>, calls = cs\<rparr> =
   (Inr (), \<lparr>world = empty_mailbox\<lparr>seconds := t\<rparr>,
             calls = cs @ [(ListCall, True), (BatchGetCall [], True), (BatchModifyCall [], True)]\<rparr>)"
  by (simp add: apply_forwarding_rule_def cycle_body_def execute_def mailbox_client_sel
      empty_mailbox_def)

lemma idle_tick:
  "tick mailbox_clock py_lib els [(account, mailbox_client)]
     \<lparr>world = empty_mailbox\<lparr>seconds := t\<rparr>, calls = cs\<rparr> =
   Running \<lparr>hour = (t div 3600) mod 24, minute = (t div 60) mod 60\<rparr>
     \<lparr>world = empty_mailbox\<lparr>seconds := t + 5\<rparr>,
      calls = cs @ [(ListCall, True), (BatchGetCall [], True), (BatchModifyCall [], True)]\<rparr>"
proof -
  have n: "now mailbox_clock (empty_mailbox\<lparr>seconds := t\<rparr>) =
      (\<lparr>hour = (t div 3600) mod 24, minute = (t div 60) mod 60\<rparr>, empty_mailbox\<lparr>seconds := t\<rparr>)"
    by (simp add: mailbox_clock_def)
  have sl: "sleep mailbox_clock 5 (empty_mailbox\<lparr>seconds := t\<rparr>) = empty_mailbox\<lparr>seconds := t + 5\<rparr>"
    by (simp add: mailbox_clock_def)
  show ?thesis
    by (simp add: tick_def n idle_cycle sl)
qed

text \<open>
  C6. The scheduler is a step function on the time sampled last. At 23:54 the step is a
  tick, so a run of the loop from there performs at least one tick. At a time of hour 23
  and minute at least 55 the step stops the scheduler in the same state, without sampling
  the clock or running any cycle, so the loop ends after zero ticks. A stopped scheduler
  has no step.
\<close>

theorem scheduler_boundary:
  "(hour dtime = 23 \<and> minute dtime = 54 \<longrightarrow>
      main_step clk l els clients (Running dtime s) = Some (tick clk l els clients s) \<and>
      (\<forall>fuel ticks final. main_loop fuel clk l els clients (Running dtime s) = Some (ticks, final)
          \<longrightarrow> 1 \<le> ticks)) \<and>
   (hour dtime = 23 \<and> 55 \<le> minute dtime \<longrightarrow>
      main_step clk l els clients (Running dtime s) = Some (Stopped s) \<and>
      (\<forall>fuel. main_loop (Suc fuel) clk l els clients (Running dtime s) = Some (0, Stopped s))) \<and>
   main_step clk l els clients (Stopped s) = None \<and>
   (\<forall>fuel. main_loop fuel clk l els clients (Stopped s) = Some (0, Stopped s))"
proof (intro conjI impI allI)
  assume a: "hour dtime = 23 \<and> minute dtime = 54"
  then show "main_step clk l els clients (Running dtime s) = Some (tick clk l els clients s)"
    by simp
  fix fuel ticks final
  assume r: "main_loop fuel clk l els clients (Running dtime s) = Some (ticks, final)"
  show "1 \<le> ticks"
  proof (cases fuel)
    case 0
    with r show ?thesis by simp
  next
    case (Suc n)
    from a have "\<not> (hour dtime = 23 \<and> minute dtime \<ge> 55)" by simp
    then have "main_loop (Suc n) clk l els clients (Running dtime s) =
        map_option (\<lambda>(ticks, final). (Suc ticks, final))
          (main_loop n clk l els clients (tick clk l els clients s))"
      by (rule main_loop_tick)
    with r Suc obtain k where "ticks = Suc k"
      by (auto simp del: main_loop.simps)
    then show ?thesis by simp
  qed
next
  assume "hour dtime = 23 \<and> 55 \<le> minute dtime"
  then show "main_step clk l els clients (Running dtime s) = Some (Stopped s)" by simp
next
  fix fuel
  assume "hour dtime = 23 \<and> 55 \<le> minute dtime"
  then show "main_loop (Suc fuel) clk l els clients (Running dtime s) = Some (0, Stopped s)" by simp
next
  show "main_step clk l els clients (Stopped s) = None" by simp
next
  fix fuel
  show "main_loop fuel clk l els clients (Stopped s) = Some (0, Stopped s)" by simp
qed

theorem scheduler_boundary_witness:
  "hour \<lparr>hour = 23, minute = 54\<rparr> = 23 \<and> minute \<lparr>hour = 23, minute = 54\<rparr> = 54 \<and>
   main_step mailbox_clock py_lib [(''boss@x.org'', office_rule)] [(''boss@x.org'', mailbox_client)]
     (Running \<lparr>hour = 23, minute = 54\<rparr> \<lparr>world = empty_mailbox\<lparr>seconds := 86098\<rparr>, calls = []\<rparr>) =
     Some (Running \<lparr>hour = 23, minute = 54\<rparr>
       \<lparr>world = empty_mailbox\<lparr>seconds := 86103\<rparr>,
        calls = [(ListCall, True), (BatchGetCall [], True), (BatchModifyCall [], True)]\<rparr>) \<and>
   main_loop 3 mailbox_clock py_lib [(''boss@x.org'', office_rule)] [(''boss@x.org'', mailbox_client)]
     (Running \<lparr>hour = 23, minute = 54\<rparr> \<lparr>world = empty_mailbox\<lparr>seconds := 86098\<rparr>, calls = []\<rparr>) =
     Some (2, Stopped
       \<lparr>world = empty_mailbox\<lparr>seconds := 86108\<rparr>,
        calls = [(ListCall, True), (BatchGetCall [], True), (BatchModifyCall [], True),
                 (ListCall, True), (BatchGetCall [], True), (BatchModifyCall [], True)]\<rparr>) \<and>
   (1::nat) \<le> 2 \<and>
   hour \<lparr>hour = 23, minute = 57\<rparr> = 23 \<and> 55 \<le> minute \<lparr>hour = 23, minute = 57\<rparr> \<and>
   main_step mailbox_clock py_lib [(''boss@x.org'', office_rule)] [(''boss@x.org'', mailbox_client)]
     (Running \<lparr>hour = 23, minute = 57\<rparr> \<lparr>world = empty_mailbox\<lparr>seconds := 86220\<rparr>, calls = []\<rparr>) =
     Some (Stopped \<lparr>world = empty_mailbox\<lparr>seconds := 86220\<rparr>, calls = []\<rparr>) \<and>
   main_loop 1 mailbox_clock py_lib [(''boss@x.org'', office_rule)] [(''boss@x.org'', mailbox_client)]
     (Running \<lparr>hour = 23, minute = 57\<rparr> \<lparr>world = empty_mailbox\<lparr>seconds := 86220\<rparr>, calls = []\<rparr>) =
     Some (0, Stopped \<lparr>world = empty_mailbox\<lparr>seconds := 86220\<rparr>, calls = []\<rparr>)"
proof -
  let ?els = "[(''boss@x.org'', office_rule)]"
  let ?cs = "[(''boss@x.org'', mailbox_client)]"
  let ?s0 = "\<lparr>world = empty_mailbox\<lparr>seconds := 86098\<rparr>, calls = []\<rparr>"
  let ?s9 = "\<lparr>world = empty_mailbox\<lparr>seconds := 86220\<rparr>, calls = []\<rparr>"
  have t1: "tick mailbox_clock py_lib ?els ?cs ?s0 =
      Running \<lparr>hour = 23, minute = 54\<rparr>
       \<lparr>world = empty_mailbox\<lparr>seconds := 86103\<rparr>,
        calls = [(ListCall, True), (BatchGetCall [], True), (BatchModifyCall [], True)]\<rparr>"
    by (simp add: idle_tick)
  have t2: "tick mailbox_clock py_lib ?els ?cs
       \<lparr>world = empty_mailbox\<lparr>seconds := 86103\<rparr>,
        calls = [(ListCall, True), (BatchGetCall [], True), (BatchModifyCall [], True)]\<rparr> =
      Running \<lparr>hour = 23, minute = 55\<rparr>
       \<lparr>world = empty_mailbox\<lparr>seconds := 86108\<rparr>,
        calls = [(ListCall, True), (BatchGetCall [], True), (BatchModifyCall [], True),
                 (ListCall, True), (BatchGetCall [], True), (BatchModifyCall [], True)]\<rparr>"
    by (simp add: idle_tick)
  have loop: "main_loop 3 mailbox_clock py_lib ?els ?cs (Running \<lparr>hour = 23, minute = 54\<rparr> ?s0) =
     Some (2, Stopped
       \<lparr>world = empty_mailbox\<lparr>seconds := 86108\<rparr>,
        calls = [(ListCall, True), (BatchGetCall [], True), (BatchModifyCall [], True),
                 (ListCall, True), (BatchGetCall [], True), (BatchModifyCall [], True)]\<rparr>)"
    by (simp add: numeral_3_eq_3 t1 t2)
  have h1: "hour \<lparr>hour = 23, minute = 54\<rparr> = 23 \<and> minute \<lparr>hour = 23, minute = 54\<rparr> = 54" by simp
  have h2: "hour \<lparr>hour = 23, minute = 57\<rparr> = 23 \<and> 55 \<le> minute \<lparr>hour = 23, minute = 57\<rparr>" by simp
  show ?thesis
    using h1 h2 t1 loop
      scheduler_boundary[of "\<lparr>hour = 23, minute = 54\<rparr>" mailbox_clock py_lib ?els ?cs ?s0]
      scheduler_boundary[of "\<lparr>hour = 23, minute = 57\<rparr>" mailbox_clock py_lib ?els ?cs ?s9]
    by (simp del: main_step.simps main_loop.simps)
qed

section \<open>Properties of the rule loader\<close>

lemma parse_files_mapping:
  "map_sum id fst (parse_files parseaddr fs email_lists logged) =
   map_sum id fst (parse_files parseaddr' fs email_lists logged')"
  by (induction fs arbitrary: email_lists logged logged')
    (auto simp: Let_def split: sum.splits bool.splits)

text \<open>
  C3, on the code. The file of account \<open>boss@x.org\<close> has an empty \<open>TO\<close> address, which
  \<open>validate_email\<close> rejects. Line 28 has already stored the rule, and the \<open>continue\<close> of
  line 33 belongs to the loop over the addresses: the message is logged and the rule stays
  in the mapping that is returned. A file with fewer lines than the section headers need
  raises \<open>IndexError\<close> at line 24, and no mapping is returned for any file.
\<close>

theorem invalid_address_is_kept:
  "validate_email parseaddr_bare [] = False \<and>
   parse parseaddr_bare
     [(''boss.txt'',
       [''ACCOUNT\<newline>'', ''boss@x.org\<newline>'', ''TO\<newline>'', ''\<newline>'', ''CC\<newline>''])] =
     Inr ([(''boss@x.org'', \<lparr>rule_to = [], rule_cc = []\<rparr>)], [Invalid_email []]) \<and>
   parse parseaddr_bare
     [(''short.txt'', [''ACCOUNT\<newline>'', ''ghost@x.org\<newline>'']),
      (''boss.txt'',
       [''ACCOUNT\<newline>'', ''boss@x.org\<newline>'', ''TO\<newline>'', ''team@x.org\<newline>'', ''CC\<newline>''])] =
     Inl IndexError"
  by code_simp

end
